theory Spec2Isabelle
  imports Complex_Main "HOL-Library.Monad_Syntax"
begin

section \<open>The flocking kernel of sCATsaver\<close>

text \<open>
  The development follows the flocking program (the file with \<^verbatim>\<open>struct Vector2D\<close>,
  \<^verbatim>\<open>class Bird\<close> and \<^verbatim>\<open>class FlockingSystem\<close>).

  Numbers. The C++ type \<^verbatim>\<open>float\<close> (and the \<^verbatim>\<open>double\<close> accumulators of the
  statistics) is modelled by \<^typ>\<open>real\<close>: arithmetic is exact, there is no rounding, no
  overflow and no NaN. Everything proved below is a statement about the program's arithmetic
  read over the reals. The one place where IEEE arithmetic leaves the reals, a division by
  zero, is made explicit for the vector primitive by a checked division that fails.
\<close>

subsection \<open>Vector2D\<close>

text \<open>\<^verbatim>\<open>struct Vector2D { float x, y; ... }\<close>; the fields are \<open>vec_x\<close> and \<open>vec_y\<close>.\<close>

datatype Vector2D = Vector2D (vec_x: real) (vec_y: real)

text \<open>\<^verbatim>\<open>operator+\<close>, \<^verbatim>\<open>operator-\<close>, \<^verbatim>\<open>operator*(float)\<close>, \<^verbatim>\<open>operator/(float)\<close> and their
  compound-assignment forms, which compute the same vector and store it in place.\<close>

definition vadd :: "Vector2D \<Rightarrow> Vector2D \<Rightarrow> Vector2D" where
  "vadd a b = Vector2D (vec_x a + vec_x b) (vec_y a + vec_y b)"

definition vsub :: "Vector2D \<Rightarrow> Vector2D \<Rightarrow> Vector2D" where
  "vsub a b = Vector2D (vec_x a - vec_x b) (vec_y a - vec_y b)"

definition vscale :: "Vector2D \<Rightarrow> real \<Rightarrow> Vector2D" where
  "vscale a k = Vector2D (vec_x a * k) (vec_y a * k)"

definition vdiv :: "Vector2D \<Rightarrow> real \<Rightarrow> Vector2D" where
  "vdiv a k = Vector2D (vec_x a / k) (vec_y a / k)"

text \<open>\<^verbatim>\<open>float magnitude() const { return sqrt(x * x + y * y); }\<close>\<close>

definition magnitude :: "Vector2D \<Rightarrow> real" where
  "magnitude a = sqrt (vec_x a * vec_x a + vec_y a * vec_y a)"

text \<open>
  A float division whose divisor is zero yields an infinity or NaN. The checked division
  returns \<open>Inl NonFinite\<close> there, so that a guard in front of a division is visible in the
  model (in HOL itself \<open>a / 0 = 0\<close>).
\<close>

datatype fp_error = NonFinite

definition fdiv :: "real \<Rightarrow> real \<Rightarrow> fp_error + real" where
  "fdiv a k = (if k = 0 then Inl NonFinite else Inr (a / k))"

definition vdiv_checked :: "Vector2D \<Rightarrow> real \<Rightarrow> fp_error + Vector2D" where
  "vdiv_checked a k =
     (case fdiv (vec_x a) k of
        Inl e \<Rightarrow> Inl e
      | Inr qx \<Rightarrow> (case fdiv (vec_y a) k of
                     Inl e \<Rightarrow> Inl e
                   | Inr qy \<Rightarrow> Inr (Vector2D qx qy)))"

text \<open>
  \<^verbatim>\<open>void normalize() { float mag = magnitude(); if (mag > 0) { x /= mag; y /= mag; } }\<close>

  \<open>normalize_checked\<close> is the function with the two divisions checked; \<open>normalize\<close> is
  the same function over the reals, used by the rest of the model. Lemma
  \<open>normalize_checked_eq\<close> shows that the first never fails and agrees with the second.
\<close>

definition normalize_checked :: "Vector2D \<Rightarrow> fp_error + Vector2D" where
  "normalize_checked a =
     (let mag = magnitude a in
      if mag > 0 then vdiv_checked a mag else Inr a)"

definition normalize :: "Vector2D \<Rightarrow> Vector2D" where
  "normalize a =
     (let mag = magnitude a in
      if mag > 0 then Vector2D (vec_x a / mag) (vec_y a / mag) else a)"

text \<open>
  \<^verbatim>\<open>Vector2D normalized() const { Vector2D result = *this; result.normalized(); return result; }\<close>

  The body calls \<^verbatim>\<open>normalized\<close> again (not \<^verbatim>\<open>normalize\<close>) on the copy, so the function is
  defined in the option monad, where not returning is the value \<open>None\<close>.
\<close>

partial_function (option) normalized :: "Vector2D \<Rightarrow> Vector2D option" where
  "normalized a =
     (let result = a in
      do { _ \<leftarrow> normalized result; Some result })"

text \<open>
  \<^verbatim>\<open>void limit(float maxMag) { if (magnitude() > maxMag) { normalize(); *this *= maxMag; } }\<close>
\<close>

definition limit :: "Vector2D \<Rightarrow> real \<Rightarrow> Vector2D" where
  "limit a maxMag =
     (if magnitude a > maxMag then vscale (normalize a) maxMag else a)"

text \<open>\<^verbatim>\<open>static float distance(a, b) { return (a - b).magnitude(); }\<close>\<close>

definition distance :: "Vector2D \<Rightarrow> Vector2D \<Rightarrow> real" where
  "distance a b = magnitude (vsub a b)"

text \<open>\<^verbatim>\<open>static Vector2D fromAngle(float angle) { return Vector2D(cos(angle), sin(angle)); }\<close>\<close>

definition fromAngle :: "real \<Rightarrow> Vector2D" where
  "fromAngle angle = Vector2D (cos angle) (sin angle)"

subsection \<open>Bird\<close>

text \<open>
  \<^verbatim>\<open>class Bird\<close>. The field \<^verbatim>\<open>r\<close> (the size) is called \<open>radius\<close> here. The colour bytes
  are left out: no simulation code reads them.
\<close>

record Bird =
  position :: Vector2D
  velocity :: Vector2D
  acceleration :: Vector2D
  radius :: real
  maxSpeed :: real
  maxForce :: real
  separationRadius :: real
  alignmentRadius :: real
  cohesionRadius :: real

text \<open>
  The constructor \<^verbatim>\<open>Bird(float x, float y)\<close>. Its random heading
  \<^verbatim>\<open>rand() / RAND_MAX * TWO_PI\<close> is the parameter \<open>angle\<close>.
\<close>

definition Bird_init :: "real \<Rightarrow> real \<Rightarrow> real \<Rightarrow> Bird" where
  "Bird_init px0 py0 angle =
     \<lparr> position = Vector2D px0 py0,
       velocity = vscale (fromAngle angle) 2,
       acceleration = Vector2D 0 0,
       radius = 4,
       maxSpeed = 2,
       maxForce = 3 / 100,
       separationRadius = 25,
       alignmentRadius = 50,
       cohesionRadius = 50 \<rparr>"

text \<open>
  \<^verbatim>\<open>update()\<close>: \<^verbatim>\<open>velocity += acceleration; velocity.limit(maxSpeed);
  position += velocity; acceleration *= 0;\<close>
\<close>

definition update :: "Bird \<Rightarrow> Bird" where
  "update b =
     (let b = b\<lparr>velocity := vadd (velocity b) (acceleration b)\<rparr>;
          b = b\<lparr>velocity := limit (velocity b) (maxSpeed b)\<rparr>;
          b = b\<lparr>position := vadd (position b) (velocity b)\<rparr>;
          b = b\<lparr>acceleration := vscale (acceleration b) 0\<rparr>
      in b)"

text \<open>\<^verbatim>\<open>applyForce(force)\<close>: \<^verbatim>\<open>acceleration += force;\<close>\<close>

definition applyForce :: "Bird \<Rightarrow> Vector2D \<Rightarrow> Bird" where
  "applyForce b force = b\<lparr>acceleration := vadd (acceleration b) force\<rparr>"

text \<open>
  \<^verbatim>\<open>seek(target)\<close>: \<^verbatim>\<open>desired = target - position; desired.normalize();
  desired *= maxSpeed; steer = desired - velocity; steer.limit(maxForce); return steer;\<close>
\<close>

definition seek :: "Bird \<Rightarrow> Vector2D \<Rightarrow> Vector2D" where
  "seek b target =
     (let desired = vsub target (position b);
          desired = normalize desired;
          desired = vscale desired (maxSpeed b);
          steer = vsub desired (velocity b);
          steer = limit steer (maxForce b)
      in steer)"

text \<open>
  \<^verbatim>\<open>separate(birds)\<close>. The loop over \<^verbatim>\<open>birds\<close> carries \<^verbatim>\<open>steer\<close> and \<^verbatim>\<open>count\<close>;
  the bird itself is in \<^verbatim>\<open>birds\<close> and is skipped by \<^verbatim>\<open>d > 0\<close>.
\<close>

fun separate_loop :: "Bird \<Rightarrow> Bird list \<Rightarrow> Vector2D \<times> nat \<Rightarrow> Vector2D \<times> nat" where
  "separate_loop b [] (steer, count) = (steer, count)"
| "separate_loop b (other # rest) (steer, count) =
     (let d = distance (position b) (position other) in
      if d > 0 \<and> d < separationRadius b then
        (let diff = vsub (position b) (position other);
             diff = normalize diff;
             diff = vdiv diff d
         in separate_loop b rest (vadd steer diff, count + 1))
      else separate_loop b rest (steer, count))"

definition separate :: "Bird \<Rightarrow> Bird list \<Rightarrow> Vector2D" where
  "separate b birds =
     (let (steer, count) = separate_loop b birds (Vector2D 0 0, 0) in
      if count > 0 then
        (let steer = vdiv steer (real count) in
         if magnitude steer > 0 then
           (let steer = normalize steer;
                steer = vscale steer (maxSpeed b);
                steer = vsub steer (velocity b);
                steer = limit steer (maxForce b)
            in steer)
         else steer)
      else steer)"

text \<open>\<^verbatim>\<open>cohesion(birds)\<close>: the mean position of the birds in range, handed to \<^verbatim>\<open>seek\<close>.
  The local \<^verbatim>\<open>sum\<close> is \<open>sum_v\<close> here and in \<open>align\<close>.\<close>

fun cohesion_loop :: "Bird \<Rightarrow> Bird list \<Rightarrow> Vector2D \<times> nat \<Rightarrow> Vector2D \<times> nat" where
  "cohesion_loop b [] (sum_v, count) = (sum_v, count)"
| "cohesion_loop b (other # rest) (sum_v, count) =
     (let d = distance (position b) (position other) in
      if d > 0 \<and> d < cohesionRadius b then
        cohesion_loop b rest (vadd sum_v (position other), count + 1)
      else cohesion_loop b rest (sum_v, count))"

definition cohesion :: "Bird \<Rightarrow> Bird list \<Rightarrow> Vector2D" where
  "cohesion b birds =
     (let (sum_v, count) = cohesion_loop b birds (Vector2D 0 0, 0) in
      if count > 0 then
        (let sum_v = vdiv sum_v (real count) in seek b sum_v)
      else Vector2D 0 0)"

text \<open>\<^verbatim>\<open>align(birds)\<close>: the mean velocity of the birds in range, turned into a steering.\<close>

fun align_loop :: "Bird \<Rightarrow> Bird list \<Rightarrow> Vector2D \<times> nat \<Rightarrow> Vector2D \<times> nat" where
  "align_loop b [] (sum_v, count) = (sum_v, count)"
| "align_loop b (other # rest) (sum_v, count) =
     (let d = distance (position b) (position other) in
      if d > 0 \<and> d < alignmentRadius b then
        align_loop b rest (vadd sum_v (velocity other), count + 1)
      else align_loop b rest (sum_v, count))"

definition align :: "Bird \<Rightarrow> Bird list \<Rightarrow> Vector2D" where
  "align b birds =
     (let (sum_v, count) = align_loop b birds (Vector2D 0 0, 0) in
      if count > 0 then
        (let sum_v = vdiv sum_v (real count);
             sum_v = normalize sum_v;
             sum_v = vscale sum_v (maxSpeed b);
             steer = vsub sum_v (velocity b);
             steer = limit steer (maxForce b)
         in steer)
      else Vector2D 0 0)"

text \<open>
  \<^verbatim>\<open>environmentalBias(windowWidth, windowHeight)\<close>. The window sizes are C++ \<^verbatim>\<open>int\<close>s,
  converted to float by the multiplications. The source writes an unqualified
  \<^verbatim>\<open>abs\<close>, taken here as the absolute value on floats.
\<close>

definition environmentalBias :: "Bird \<Rightarrow> int \<Rightarrow> int \<Rightarrow> Vector2D" where
  "environmentalBias b windowWidth windowHeight =
     (let upperHalf = real_of_int windowHeight * (3 / 10);
          bias_y = (if vec_y (position b) > upperHalf then
                      (let distanceFromTop = (vec_y (position b) - upperHalf) / upperHalf
                       in - distanceFromTop * (8 / 10))
                    else 15 / 100);
          bias = Vector2D (5 / 10) bias_y;
          idealY = real_of_int windowHeight * (2 / 10);
          distanceFromIdeal =
            \<bar>vec_y (position b) - idealY\<bar> / (real_of_int windowHeight * (5 / 10));
          steer = bias;
          steer = normalize steer;
          steer = vscale steer (maxSpeed b * (3 / 10 + distanceFromIdeal * (5 / 10)));
          steer = vsub steer (velocity b);
          steer = limit steer (maxForce b * (5 / 10))
      in steer)"

text \<open>
  \<^verbatim>\<open>flock(birds, windowWidth, windowHeight)\<close>: the four steerings, weighted, added to the
  acceleration. The four rules read \<^verbatim>\<open>birds\<close> before the first \<^verbatim>\<open>applyForce\<close>.
\<close>

definition flock :: "Bird \<Rightarrow> Bird list \<Rightarrow> int \<Rightarrow> int \<Rightarrow> Bird" where
  "flock b birds windowWidth windowHeight =
     (let sep = separate b birds;
          ali = align b birds;
          coh = cohesion b birds;
          bias = environmentalBias b windowWidth windowHeight;
          sep = vscale sep (15 / 10);
          ali = vscale ali 1;
          coh = vscale coh 1;
          bias = vscale bias (8 / 10);
          b = applyForce b sep;
          b = applyForce b ali;
          b = applyForce b coh;
          b = applyForce b bias
      in b)"

text \<open>
  \<^verbatim>\<open>borders(width, height)\<close>: four tests in this order, each on the position left by the
  ones before it.
\<close>

definition set_x :: "Bird \<Rightarrow> real \<Rightarrow> Bird" where
  "set_x b v = b\<lparr>position := Vector2D v (vec_y (position b))\<rparr>"

definition set_y :: "Bird \<Rightarrow> real \<Rightarrow> Bird" where
  "set_y b v = b\<lparr>position := Vector2D (vec_x (position b)) v\<rparr>"

definition borders :: "Bird \<Rightarrow> int \<Rightarrow> int \<Rightarrow> Bird" where
  "borders b width height =
     (let b = (if vec_x (position b) < - radius b
               then set_x b (real_of_int width + radius b) else b);
          b = (if vec_y (position b) < - radius b
               then set_y b (real_of_int height + radius b) else b);
          b = (if vec_x (position b) > real_of_int width + radius b
               then set_x b (- radius b) else b);
          b = (if vec_y (position b) > real_of_int height + radius b
               then set_y b (- radius b) else b)
      in b)"

subsection \<open>FlockingSystem\<close>

record FlockingSystem =
  birds :: "Bird list"
  windowWidth :: int
  windowHeight :: int

text \<open>
  \<^verbatim>\<open>addBoid(x, y)\<close>: \<^verbatim>\<open>birds.emplace_back(x, y)\<close>, the new bird goes to the end. The
  heading drawn by the constructor is the parameter \<open>angle\<close>.
\<close>

definition addBoid :: "real \<Rightarrow> real \<Rightarrow> real \<Rightarrow> FlockingSystem \<Rightarrow> FlockingSystem" where
  "addBoid px0 py0 angle F = F\<lparr>birds := birds F @ [Bird_init px0 py0 angle]\<rparr>"

text \<open>\<^verbatim>\<open>resize(width, height)\<close>\<close>

definition resize :: "int \<Rightarrow> int \<Rightarrow> FlockingSystem \<Rightarrow> FlockingSystem" where
  "resize width height F = F\<lparr>windowWidth := width, windowHeight := height\<rparr>"

text \<open>
  \<^verbatim>\<open>updateSerial()\<close>. The first loop runs \<^verbatim>\<open>bird.flock(birds, ...)\<close> in place, bird after
  bird, each call seeing the vector as the calls before it left it. The second loop calls
  \<^verbatim>\<open>update\<close> and \<^verbatim>\<open>borders\<close> on every bird; these read and write that bird only.
\<close>

definition flock_pass :: "Bird list \<Rightarrow> int \<Rightarrow> int \<Rightarrow> Bird list" where
  "flock_pass bs w h =
     foldl (\<lambda>cur i. cur[i := flock (cur ! i) cur w h]) bs [0..<length bs]"

definition updateSerial :: "FlockingSystem \<Rightarrow> FlockingSystem" where
  "updateSerial F =
     (let bs = flock_pass (birds F) (windowWidth F) (windowHeight F);
          bs = map (\<lambda>boid. borders (update boid) (windowWidth F) (windowHeight F)) bs
      in F\<lparr>birds := bs\<rparr>)"

text \<open>
  \<^verbatim>\<open>updateParallel()\<close>. The nine reduction variables of the neighbour scan are a record.
  The scan reads the snapshot arrays \<^verbatim>\<open>px, py, vx, vy\<close> by index. Over the reals the order
  in which a reduction adds its terms does not matter, so the loop is run in index order.
\<close>

record scan_acc =
  sep_x :: real
  sep_y :: real
  sep_c :: nat
  ali_x :: real
  ali_y :: real
  ali_c :: nat
  coh_x :: real
  coh_y :: real
  coh_c :: nat

definition scan_init :: scan_acc where
  "scan_init = \<lparr> sep_x = 0, sep_y = 0, sep_c = 0, ali_x = 0, ali_y = 0, ali_c = 0,
                  coh_x = 0, coh_y = 0, coh_c = 0 \<rparr>"

definition scan_step ::
  "real \<Rightarrow> real \<Rightarrow> real \<Rightarrow> real \<Rightarrow> real \<Rightarrow>
   real list \<Rightarrow> real list \<Rightarrow> real list \<Rightarrow> real list \<Rightarrow> scan_acc \<Rightarrow> nat \<Rightarrow> scan_acc" where
  "scan_step pix piy sepR2 aliR2 cohR2 px py vx vy s j =
     (let dx = pix - px ! j;
          dy = piy - py ! j;
          d2 = dx * dx + dy * dy
      in if d2 > 0 then
           (let s = (if d2 < sepR2 then
                       (let invd = 1 / sqrt d2
                        in s\<lparr>sep_x := sep_x s + dx * invd * invd,
                             sep_y := sep_y s + dy * invd * invd,
                             sep_c := sep_c s + 1\<rparr>)
                     else s);
                s = (if d2 < aliR2 then
                       s\<lparr>ali_x := ali_x s + vx ! j,
                         ali_y := ali_y s + vy ! j,
                         ali_c := ali_c s + 1\<rparr>
                     else s);
                s = (if d2 < cohR2 then
                       s\<lparr>coh_x := coh_x s + px ! j,
                         coh_y := coh_y s + py ! j,
                         coh_c := coh_c s + 1\<rparr>
                     else s)
            in s)
         else s)"

text \<open>The lambda \<^verbatim>\<open>fast_limit(x, y, maxMag)\<close>; it returns the two updated references.\<close>

definition fast_limit :: "real \<Rightarrow> real \<Rightarrow> real \<Rightarrow> real \<times> real" where
  "fast_limit fx fy maxMag =
     (let s2 = fx * fx + fy * fy;
          m2 = maxMag * maxMag
      in if s2 > m2 \<and> s2 > 0 then
           (let inv = maxMag / sqrt s2 in (fx * inv, fy * inv))
         else (fx, fy))"

text \<open>
  The body of the force loop for bird \<open>i\<close>: the values stored in \<^verbatim>\<open>ax[i]\<close> and \<^verbatim>\<open>ay[i]\<close>.
  \<open>winH\<close> is the member \<^verbatim>\<open>windowHeight\<close>; \<^verbatim>\<open>mSpeed\<close> and \<^verbatim>\<open>mForce\<close> are \<^verbatim>\<open>birds[i].maxSpeed\<close> and
  \<^verbatim>\<open>birds[i].maxForce\<close>.
\<close>

definition force_sep :: "scan_acc \<Rightarrow> real \<Rightarrow> real \<Rightarrow> real \<Rightarrow> real \<Rightarrow> real \<times> real \<Rightarrow> real \<times> real" where
  "force_sep s vix viy mSpeed mForce acc =
     (if sep_c s > 0 then
        (let sx = sep_x s / real (sep_c s);
             sy = sep_y s / real (sep_c s);
             s2 = sx * sx + sy * sy
         in if s2 > 0 then
              (let inv = 1 / sqrt s2;
                   sx = sx * inv; sy = sy * inv;
                   sx = sx * mSpeed; sy = sy * mSpeed;
                   sx = sx - vix; sy = sy - viy;
                   (sx, sy) = fast_limit sx sy mForce
               in (fst acc + (15 / 10) * sx, snd acc + (15 / 10) * sy))
            else acc)
      else acc)"

definition force_ali :: "scan_acc \<Rightarrow> real \<Rightarrow> real \<Rightarrow> real \<Rightarrow> real \<Rightarrow> real \<times> real \<Rightarrow> real \<times> real" where
  "force_ali s vix viy mSpeed mForce acc =
     (if ali_c s > 0 then
        (let axm = ali_x s / real (ali_c s);
             aym = ali_y s / real (ali_c s);
             s2 = axm * axm + aym * aym
         in if s2 > 0 then
              (let inv = 1 / sqrt s2;
                   axm = axm * inv; aym = aym * inv;
                   axm = axm * mSpeed; aym = aym * mSpeed;
                   axm = axm - vix; aym = aym - viy;
                   (axm, aym) = fast_limit axm aym mForce
               in (fst acc + axm, snd acc + aym))
            else acc)
      else acc)"

definition force_coh ::
  "scan_acc \<Rightarrow> real \<Rightarrow> real \<Rightarrow> real \<Rightarrow> real \<Rightarrow> real \<Rightarrow> real \<Rightarrow> real \<times> real \<Rightarrow> real \<times> real" where
  "force_coh s pix piy vix viy mSpeed mForce acc =
     (if coh_c s > 0 then
        (let tx = coh_x s / real (coh_c s);
             ty = coh_y s / real (coh_c s);
             dx = tx - pix; dy = ty - piy;
             s2 = dx * dx + dy * dy
         in if s2 > 0 then
              (let inv = 1 / sqrt s2;
                   dx = dx * inv; dy = dy * inv;
                   dx = dx * mSpeed; dy = dy * mSpeed;
                   dx = dx - vix; dy = dy - viy;
                   (dx, dy) = fast_limit dx dy mForce
               in (fst acc + dx, snd acc + dy))
            else acc)
      else acc)"

definition force_bias ::
  "int \<Rightarrow> real \<Rightarrow> real \<Rightarrow> real \<Rightarrow> real \<Rightarrow> real \<Rightarrow> real \<times> real \<Rightarrow> real \<times> real" where
  "force_bias winH piy vix viy mSpeed mForce acc =
     (let bx = 5 / 10;
          upperHalf = real_of_int winH * (3 / 10);
          by = (if piy > upperHalf then
                  (let distanceFromTop = (piy - upperHalf) / upperHalf
                   in - distanceFromTop * (8 / 10))
                else 15 / 100);
          idealY = real_of_int winH * (2 / 10);
          distanceFromIdeal = \<bar>piy - idealY\<bar> / (real_of_int winH * (5 / 10));
          bsx = bx; bsy = by;
          b2 = bsx * bsx + bsy * bsy
      in if b2 > 0 then
           (let inv = 1 / sqrt b2;
                bsx = bsx * inv; bsy = bsy * inv;
                speed = mSpeed * (3 / 10 + distanceFromIdeal * (5 / 10));
                bsx = bsx * speed; bsy = bsy * speed;
                bsx = bsx - vix; bsy = bsy - viy;
                (bsx, bsy) = fast_limit bsx bsy (mForce * (5 / 10))
            in (fst acc + (8 / 10) * bsx, snd acc + (8 / 10) * bsy))
         else acc)"

definition boid_force ::
  "Bird list \<Rightarrow> int \<Rightarrow> real list \<Rightarrow> real list \<Rightarrow> real list \<Rightarrow> real list \<Rightarrow>
   real \<Rightarrow> real \<Rightarrow> real \<Rightarrow> nat \<Rightarrow> real \<times> real" where
  "boid_force bs winH px py vx vy sepR2 aliR2 cohR2 i =
     (let n = length bs;
          pix = px ! i; piy = py ! i;
          vix = vx ! i; viy = vy ! i;
          s = foldl (scan_step pix piy sepR2 aliR2 cohR2 px py vx vy) scan_init [0..<n];
          acc = (0, 0);
          acc = force_sep s vix viy (maxSpeed (bs ! i)) (maxForce (bs ! i)) acc;
          acc = force_ali s vix viy (maxSpeed (bs ! i)) (maxForce (bs ! i)) acc;
          acc = force_coh s pix piy vix viy (maxSpeed (bs ! i)) (maxForce (bs ! i)) acc;
          acc = force_bias winH piy vix viy (maxSpeed (bs ! i)) (maxForce (bs ! i)) acc
      in acc)"

text \<open>
  The three phases of \<^verbatim>\<open>updateParallel\<close>: the snapshot, the force loop that fills
  \<^verbatim>\<open>ax, ay\<close>, and the integration loop. Each iteration of a parallel loop writes only
  its own slot, so each loop is a map over the indices. The squared radii are those of
  \<^verbatim>\<open>birds[0]\<close>.
\<close>

definition integrate :: "Bird \<Rightarrow> real \<Rightarrow> real \<Rightarrow> int \<Rightarrow> int \<Rightarrow> Bird" where
  "integrate b axi ayi w h =
     (let b = b\<lparr>acceleration :=
                  Vector2D (vec_x (acceleration b) + axi) (vec_y (acceleration b) + ayi)\<rparr>;
          b = update b;
          b = borders b w h
      in b)"

definition updateParallel :: "FlockingSystem \<Rightarrow> FlockingSystem" where
  "updateParallel F =
     (let bs = birds F; n = length bs in
      if n = 0 then F
      else
        (let px = map (\<lambda>b. vec_x (position b)) bs;
             py = map (\<lambda>b. vec_y (position b)) bs;
             vx = map (\<lambda>b. vec_x (velocity b)) bs;
             vy = map (\<lambda>b. vec_y (velocity b)) bs;
             sepR2 = separationRadius (bs ! 0) * separationRadius (bs ! 0);
             aliR2 = alignmentRadius (bs ! 0) * alignmentRadius (bs ! 0);
             cohR2 = cohesionRadius (bs ! 0) * cohesionRadius (bs ! 0);
             forces = map (boid_force bs (windowHeight F) px py vx vy sepR2 aliR2 cohR2) [0..<n];
             ax = map fst forces;
             ay = map snd forces;
             bs = map (\<lambda>i. integrate (bs ! i) (ax ! i) (ay ! i) (windowWidth F) (windowHeight F))
                      [0..<n]
         in F\<lparr>birds := bs\<rparr>))"

text \<open>
  \<^verbatim>\<open>removeBoids(count)\<close>. \<^verbatim>\<open>static_cast<int>(birds.size())\<close> keeps the low 32 bits of the
  size as a signed number. \<^verbatim>\<open>birds.erase(birds.end() - count, birds.end())\<close> with a negative
  \<^verbatim>\<open>count\<close> is an invalid iterator range.
\<close>

datatype failure = UndefinedBehaviour

definition size_as_int :: "nat \<Rightarrow> int" where
  "size_as_int n = signed_take_bit 31 (int n)"

definition removeBoids :: "int \<Rightarrow> FlockingSystem \<Rightarrow> failure + FlockingSystem" where
  "removeBoids count F =
     (if count \<ge> size_as_int (length (birds F)) then Inr (F\<lparr>birds := []\<rparr>)
      else if count < 0 then Inl UndefinedBehaviour
      else Inr (F\<lparr>birds := take (length (birds F) - nat count) (birds F)\<rparr>))"

text \<open>
  \<^verbatim>\<open>getAverageSpeed()\<close> and \<^verbatim>\<open>getCoherence()\<close>: reductions over the indices, run in index
  order.
\<close>

definition getAverageSpeed :: "FlockingSystem \<Rightarrow> real" where
  "getAverageSpeed F =
     (if birds F = [] then 0
      else
        (let total = foldl (\<lambda>t i. t + magnitude (velocity (birds F ! i))) 0
                           [0..<length (birds F)]
         in total / real (length (birds F))))"

definition getCoherence :: "FlockingSystem \<Rightarrow> real" where
  "getCoherence F =
     (let n = length (birds F) in
      if n < 2 then 0
      else
        (let cx = foldl (\<lambda>c i. c + vec_x (position (birds F ! i))) 0 [0..<n];
             cy = foldl (\<lambda>c i. c + vec_y (position (birds F ! i))) 0 [0..<n];
             cx = cx / real n;
             cy = cy / real n;
             totalDist =
               foldl (\<lambda>t i. let dx = vec_x (position (birds F ! i)) - cx;
                                 dy = vec_y (position (birds F ! i)) - cy
                             in t + sqrt (dx * dx + dy * dy)) 0 [0..<n]
         in totalDist / real n))"

subsection \<open>The statistics as the specification words them\<close>

text \<open>
  The centroid of a list of points and the mean Euclidean distance of the points from it,
  written with \<open>sum_list\<close>; \<open>getCoherence\<close> is compared with it below.
\<close>

definition centroid :: "Vector2D list \<Rightarrow> Vector2D" where
  "centroid ps =
     Vector2D (sum_list (map vec_x ps) / real (length ps))
              (sum_list (map vec_y ps) / real (length ps))"

definition mean_distance_from_centroid :: "Vector2D list \<Rightarrow> real" where
  "mean_distance_from_centroid ps =
     sum_list (map (\<lambda>p. distance p (centroid ps)) ps) / real (length ps)"

subsection \<open>The two cases in which the parallel force loop adds no term\<close>

text \<open>
  In \<open>force_ali\<close> and \<open>force_coh\<close> the test \<^verbatim>\<open>s2 > 0\<close> fails exactly when birds were
  counted and the mean neighbour velocity is zero, respectively the mean neighbour position
  is the bird's own position. The two predicates say so in terms of the loops of \<open>align\<close>
  and \<open>cohesion\<close>.
\<close>

definition align_mean_zero :: "Bird \<Rightarrow> Bird list \<Rightarrow> bool" where
  "align_mean_zero b bs =
     (case align_loop b bs (Vector2D 0 0, 0) of
        (sum_v, count) \<Rightarrow> count > 0 \<and> vdiv sum_v (real count) = Vector2D 0 0)"

definition cohesion_mean_at_self :: "Bird \<Rightarrow> Bird list \<Rightarrow> bool" where
  "cohesion_mean_at_self b bs =
     (case cohesion_loop b bs (Vector2D 0 0, 0) of
        (sum_v, count) \<Rightarrow> count > 0 \<and> vdiv sum_v (real count) = position b)"

subsection \<open>A flock on which the two update paths are compared\<close>

text \<open>
  Three birds on one horizontal line, 30 apart, the middle one first in the vector: the
  outer two are within the alignment and cohesion radius (50) of the middle one and outside
  its separation radius (25), and their mean position is the position of the middle bird.
  All three fly with speed 2 along the direction \<open>(5/13, -12/13)\<close>. The window is 640 by
  480. \<open>snap_px\<close>, \<open>snap_py\<close>, \<open>snap_vx\<close>, \<open>snap_vy\<close> are the snapshot arrays that
  \<open>updateParallel\<close> builds for this flock.
\<close>

definition heading_bird :: "real \<Rightarrow> real \<Rightarrow> Bird" where
  "heading_bird px0 py0 = (Bird_init px0 py0 0)\<lparr>velocity := Vector2D (10 / 13) (- (24 / 13))\<rparr>"

definition symmetric_flock :: FlockingSystem where
  "symmetric_flock =
     \<lparr> birds = [heading_bird 100 360, heading_bird 70 360, heading_bird 130 360],
       windowWidth = 640, windowHeight = 480 \<rparr>"

definition snap_px :: "real list" where "snap_px = [100, 70, 130]"

definition snap_py :: "real list" where "snap_py = [360, 360, 360]"

definition snap_vx :: "real list" where "snap_vx = [10 / 13, 10 / 13, 10 / 13]"

definition snap_vy :: "real list" where "snap_vy = [- (24 / 13), - (24 / 13), - (24 / 13)]"

subsection \<open>Facts about the vector primitive\<close>

lemma magnitude_nonneg: "0 \<le> magnitude a"
  by (simp add: magnitude_def)

lemma magnitude_zero_iff: "magnitude a = 0 \<longleftrightarrow> a = Vector2D 0 0"
proof (cases a)
  case (Vector2D p q)
  have "sqrt (p * p + q * q) = 0 \<longleftrightarrow> p = 0 \<and> q = 0"
    by (simp add: sum_squares_eq_zero_iff)
  with Vector2D show ?thesis by (simp add: magnitude_def)
qed

lemma magnitude_pos_iff: "0 < magnitude a \<longleftrightarrow> a \<noteq> Vector2D 0 0"
  using magnitude_nonneg [of a] magnitude_zero_iff [of a] by linarith

lemma normalize_checked_eq: "normalize_checked a = Inr (normalize a)"
  by (simp add: normalize_checked_def normalize_def vdiv_checked_def fdiv_def Let_def)

lemma magnitude_vscale: "magnitude (vscale a k) = magnitude a * \<bar>k\<bar>"
proof -
  have "vec_x a * k * (vec_x a * k) + vec_y a * k * (vec_y a * k)
        = (vec_x a * vec_x a + vec_y a * vec_y a) * (k * k)"
    by (simp add: algebra_simps)
  then show ?thesis
    by (simp add: magnitude_def vscale_def real_sqrt_mult)
qed

lemma normalize_unit: "a \<noteq> Vector2D 0 0 \<Longrightarrow> magnitude (normalize a) = 1"
proof -
  assume nz: "a \<noteq> Vector2D 0 0"
  then have pos: "0 < magnitude a" by (simp add: magnitude_pos_iff)
  have "normalize a = vscale a (1 / magnitude a)"
    using pos by (simp add: normalize_def vscale_def Let_def)
  then show ?thesis
    using pos by (simp add: magnitude_vscale)
qed

lemma normalize_zero: "normalize (Vector2D 0 0) = Vector2D 0 0"
  by (simp add: normalize_def magnitude_def)

lemma magnitude_limit_abs: "magnitude (limit a m) \<le> \<bar>m\<bar>"
proof (cases "magnitude a > m")
  case True
  show ?thesis
  proof (cases "a = Vector2D 0 0")
    case True
    then show ?thesis by (simp add: limit_def normalize_zero vscale_def magnitude_def)
  next
    case False
    with \<open>magnitude a > m\<close> show ?thesis
      by (simp add: limit_def magnitude_vscale normalize_unit)
  qed
next
  case False
  then show ?thesis by (simp add: limit_def)
qed

lemma magnitude_limit_le: "0 \<le> m \<Longrightarrow> magnitude (limit a m) \<le> m"
  using magnitude_limit_abs [of a m] by simp

lemma distance_self: "distance a a = 0"
  by (simp add: distance_def vsub_def magnitude_def)

lemma distance_horizontal: "distance (Vector2D a c) (Vector2D b c) = \<bar>a - b\<bar>"
  by (simp add: distance_def vsub_def magnitude_def)

lemma normalize_as_scale:
  "a \<noteq> Vector2D 0 0 \<Longrightarrow> normalize a = vscale a (1 / magnitude a)"
  by (simp add: normalize_def vscale_def Let_def magnitude_pos_iff)

lemma vsub_eq_zero_iff: "vsub a b = Vector2D 0 0 \<longleftrightarrow> a = b"
  by (cases a; cases b) (simp add: vsub_def)

lemma vsub_self: "vsub a a = Vector2D 0 0"
  by (simp add: vsub_def)

lemma vscale_vscale: "vscale (vscale a k) m = vscale a (k * m)"
  by (simp add: vscale_def mult.assoc)

lemma vscale_zero_vec: "vscale (Vector2D 0 0) k = Vector2D 0 0"
  by (simp add: vscale_def)


lemma limit_within: "magnitude a \<le> m \<Longrightarrow> limit a m = a"
  by (simp add: limit_def)

lemma limit_beyond: "m < magnitude a \<Longrightarrow> limit a m = vscale a (m / magnitude a)"
proof (cases "a = Vector2D 0 0")
  case True
  then show ?thesis by (simp add: limit_def normalize_zero vscale_zero_vec)
next
  case False
  assume "m < magnitude a"
  with False show ?thesis
    by (simp add: limit_def normalize_as_scale vscale_vscale)
qed

lemma separate_loop_none:
  "\<forall>other\<in>set bs. \<not> (0 < distance (position b) (position other)
                        \<and> distance (position b) (position other) < separationRadius b)
   \<Longrightarrow> separate_loop b bs (s, c) = (s, c)"
  by (induction bs) (auto simp: Let_def)

lemma cohesion_loop_none:
  "\<forall>other\<in>set bs. \<not> (0 < distance (position b) (position other)
                        \<and> distance (position b) (position other) < cohesionRadius b)
   \<Longrightarrow> cohesion_loop b bs (s, c) = (s, c)"
  by (induction bs) (auto simp: Let_def)

lemma align_loop_none:
  "\<forall>other\<in>set bs. \<not> (0 < distance (position b) (position other)
                        \<and> distance (position b) (position other) < alignmentRadius b)
   \<Longrightarrow> align_loop b bs (s, c) = (s, c)"
  by (induction bs) (auto simp: Let_def)

lemma size_as_int_small: "n < 2 ^ 31 \<Longrightarrow> size_as_int n = int n"
  unfolding size_as_int_def by (rule signed_take_bit_int_eq_self) auto

lemma foldl_upt_sum:
  "foldl (\<lambda>t i. t + g i) a [0..<n] = a + (\<Sum>i<n. g i)" for a :: real
  by (induction n) (simp_all add: lessThan_Suc)

lemma sum_list_nth_sum: "sum_list (map f xs) = (\<Sum>i<length xs. f (xs ! i))" for f :: "'a \<Rightarrow> real"
  by (simp add: sum_list_sum_nth atLeast0LessThan)

lemma foldl_index_sum_list:
  "foldl (\<lambda>t i. t + f (xs ! i)) a [0..<length xs] = a + sum_list (map f xs)" for a :: real
  by (simp add: foldl_upt_sum sum_list_nth_sum)

lemma getCoherence_eq:
  assumes "2 \<le> length (birds F)"
  shows "getCoherence F = mean_distance_from_centroid (map position (birds F))"
proof -
  let ?bs = "birds F"
  let ?n = "length ?bs"
  have cx: "foldl (\<lambda>c i. c + vec_x (position (?bs ! i))) 0 [0..<?n]
            = sum_list (map vec_x (map position ?bs))"
    using foldl_index_sum_list [of "\<lambda>b. vec_x (position b)" ?bs 0] by (simp add: comp_def)
  have cy: "foldl (\<lambda>c i. c + vec_y (position (?bs ! i))) 0 [0..<?n]
            = sum_list (map vec_y (map position ?bs))"
    using foldl_index_sum_list [of "\<lambda>b. vec_y (position b)" ?bs 0] by (simp add: comp_def)
  have td: "foldl (\<lambda>t i. t + sqrt ((vec_x (position (?bs ! i)) - cx) * (vec_x (position (?bs ! i)) - cx)
                                   + (vec_y (position (?bs ! i)) - cy) * (vec_y (position (?bs ! i)) - cy)))
                  0 [0..<?n]
            = sum_list (map (\<lambda>p. distance p (Vector2D cx cy)) (map position ?bs))" for cx cy
    using foldl_index_sum_list
      [of "\<lambda>b. sqrt ((vec_x (position b) - cx) * (vec_x (position b) - cx)
                     + (vec_y (position b) - cy) * (vec_y (position b) - cy))" ?bs 0]
    by (simp add: comp_def distance_def vsub_def magnitude_def)
  from assms have "\<not> ?n < 2" by simp
  then show ?thesis
    by (simp add: getCoherence_def Let_def cx cy td mean_distance_from_centroid_def centroid_def)
qed

subsection \<open>The force pass of the serial update reads a snapshot\<close>

lemma separate_loop_cong:
  "map position bs = map position bs' \<Longrightarrow> separate_loop b bs acc = separate_loop b bs' acc"
proof (induction bs arbitrary: bs' acc)
  case Nil
  then show ?case by simp
next
  case (Cons other rest)
  then obtain other' rest' where bs': "bs' = other' # rest'"
    and p: "position other = position other'" and r: "map position rest = map position rest'"
    by (cases bs') auto
  obtain s c where acc: "acc = (s, c)" by (cases acc)
  show ?case
    unfolding bs' acc using Cons.IH [OF r] by (simp add: Let_def p)
qed

lemma cohesion_loop_cong:
  "map position bs = map position bs' \<Longrightarrow> cohesion_loop b bs acc = cohesion_loop b bs' acc"
proof (induction bs arbitrary: bs' acc)
  case Nil
  then show ?case by simp
next
  case (Cons other rest)
  then obtain other' rest' where bs': "bs' = other' # rest'"
    and p: "position other = position other'" and r: "map position rest = map position rest'"
    by (cases bs') auto
  obtain s c where acc: "acc = (s, c)" by (cases acc)
  show ?case
    unfolding bs' acc using Cons.IH [OF r] by (simp add: Let_def p)
qed

lemma align_loop_cong:
  "map position bs = map position bs' \<Longrightarrow> map velocity bs = map velocity bs'
   \<Longrightarrow> align_loop b bs acc = align_loop b bs' acc"
proof (induction bs arbitrary: bs' acc)
  case Nil
  then show ?case by simp
next
  case (Cons other rest)
  then obtain other' rest' where bs': "bs' = other' # rest'"
    and p: "position other = position other'" and r: "map position rest = map position rest'"
    and v: "velocity other = velocity other'" and rv: "map velocity rest = map velocity rest'"
    by (cases bs') auto
  obtain s c where acc: "acc = (s, c)" by (cases acc)
  show ?case
    unfolding bs' acc using Cons.IH [OF r rv] by (simp add: Let_def p v)
qed

lemma flock_cong:
  assumes "map position bs = map position bs'" and "map velocity bs = map velocity bs'"
  shows "flock b bs w h = flock b bs' w h"
  by (simp add: flock_def separate_def align_def cohesion_def
      separate_loop_cong [OF assms(1)] cohesion_loop_cong [OF assms(1)]
      align_loop_cong [OF assms])

lemma flock_keeps:
  "position (flock b bs w h) = position b" "velocity (flock b bs w h) = velocity b"
  by (simp_all add: flock_def applyForce_def Let_def)

lemma flock_pass_prefix:
  "k \<le> length bs \<Longrightarrow>
   foldl (\<lambda>cur i. cur[i := flock (cur ! i) cur w h]) bs [0..<k]
   = map (\<lambda>i. if i < k then flock (bs ! i) bs w h else bs ! i) [0..<length bs]"
proof (induction k)
  case 0
  show ?case by (simp add: map_nth)
next
  case (Suc k)
  let ?cur = "map (\<lambda>i. if i < k then flock (bs ! i) bs w h else bs ! i) [0..<length bs]"
  from Suc.prems have k: "k < length bs" by simp
  have curk: "?cur ! k = bs ! k" using k by simp
  have "map position ?cur = map position bs" "map velocity ?cur = map velocity bs"
    by (auto intro!: nth_equalityI simp: flock_keeps)
  then have fl: "flock (bs ! k) ?cur w h = flock (bs ! k) bs w h"
    by (rule flock_cong)
  have "foldl (\<lambda>cur i. cur[i := flock (cur ! i) cur w h]) bs [0..<Suc k]
        = ?cur[k := flock (?cur ! k) ?cur w h]"
    using Suc.IH k by simp
  also have "\<dots> = ?cur[k := flock (bs ! k) bs w h]"
    by (simp only: curk fl)
  also have "\<dots> = map (\<lambda>i. if i < Suc k then flock (bs ! i) bs w h else bs ! i) [0..<length bs]"
    by (rule nth_equalityI) (auto simp: nth_list_update less_Suc_eq)
  finally show ?case .
qed

lemma flock_pass_snapshot: "flock_pass bs w h = map (\<lambda>b. flock b bs w h) bs"
proof -
  have "flock_pass bs w h = map (\<lambda>i. flock (bs ! i) bs w h) [0..<length bs]"
    unfolding flock_pass_def using flock_pass_prefix [of "length bs" bs w h] by simp
  also have "\<dots> = map (\<lambda>b. flock b bs w h) bs"
    by (rule nth_equalityI) simp_all
  finally show ?thesis .
qed

lemma updateSerial_nth:
  "i < length (birds F) \<Longrightarrow>
   birds (updateSerial F) ! i
   = borders (update (flock (birds F ! i) (birds F) (windowWidth F) (windowHeight F)))
       (windowWidth F) (windowHeight F)"
  by (simp add: updateSerial_def Let_def flock_pass_snapshot)

subsection \<open>The parallel force loop against the serial rules\<close>

lemma sqrt_less_sq: "0 \<le> m \<Longrightarrow> sqrt q < m \<longleftrightarrow> q < m * m"
proof -
  assume m: "0 \<le> m"
  then have "sqrt (m * m) = m" by simp
  then have "sqrt q < m \<longleftrightarrow> sqrt q < sqrt (m * m)" by simp
  then show ?thesis by (simp only: real_sqrt_less_iff)
qed

lemma sqrt_greater_sq: "0 \<le> m \<Longrightarrow> m < sqrt q \<longleftrightarrow> m * m < q"
proof -
  assume m: "0 \<le> m"
  then have "sqrt (m * m) = m" by simp
  then have "m < sqrt q \<longleftrightarrow> sqrt (m * m) < sqrt q" by simp
  then show ?thesis by (simp only: real_sqrt_less_iff)
qed

lemma limit_fast_limit:
  assumes "0 \<le> m"
  shows "limit (Vector2D p q) m = Vector2D (fst (fast_limit p q m)) (snd (fast_limit p q m))"
proof (cases "m * m < p * p + q * q")
  case True
  with assms have big: "m < sqrt (p * p + q * q)" by (simp add: sqrt_greater_sq)
  with assms have pos: "0 < sqrt (p * p + q * q)" by linarith
  then have pos2: "0 < p * p + q * q" by simp
  show ?thesis
    using True big pos pos2
    by (simp add: limit_def fast_limit_def magnitude_def normalize_def vscale_def Let_def)
next
  case False
  with assms have "\<not> m < sqrt (p * p + q * q)" by (simp add: sqrt_greater_sq)
  with False show ?thesis
    by (simp add: limit_def fast_limit_def magnitude_def Let_def)
qed

text \<open>The shape shared by the four steering computations.\<close>

lemma steer_fast:
  assumes "0 \<le> mf" and "0 < p * p + q * q"
  shows "limit (vsub (vscale (normalize (Vector2D p q)) ms) (Vector2D vix viy)) mf
         = Vector2D
             (fst (fast_limit (p * (1 / sqrt (p * p + q * q)) * ms - vix)
                              (q * (1 / sqrt (p * p + q * q)) * ms - viy) mf))
             (snd (fast_limit (p * (1 / sqrt (p * p + q * q)) * ms - vix)
                              (q * (1 / sqrt (p * p + q * q)) * ms - viy) mf))"
proof -
  from assms(2) have "0 < sqrt (p * p + q * q)" by simp
  then have "vsub (vscale (normalize (Vector2D p q)) ms) (Vector2D vix viy)
             = Vector2D (p * (1 / sqrt (p * p + q * q)) * ms - vix)
                        (q * (1 / sqrt (p * p + q * q)) * ms - viy)"
    by (simp add: normalize_def magnitude_def vscale_def vsub_def Let_def)
  then show ?thesis
    by (simp only: limit_fast_limit [OF assms(1)])
qed


lemma scan_step_sep:
  assumes "k < length bs" and "0 \<le> separationRadius b"
  shows "(let s' = scan_step (vec_x (position b)) (vec_y (position b))
                     (separationRadius b * separationRadius b) aliR2 cohR2
                     (map (\<lambda>b. vec_x (position b)) bs) (map (\<lambda>b. vec_y (position b)) bs) vx vy s k
          in (Vector2D (sep_x s') (sep_y s'), sep_c s'))
         = (let d = distance (position b) (position (bs ! k)) in
            if d > 0 \<and> d < separationRadius b then
              (vadd (Vector2D (sep_x s) (sep_y s))
                    (vdiv (normalize (vsub (position b) (position (bs ! k)))) d), sep_c s + 1)
            else (Vector2D (sep_x s) (sep_y s), sep_c s))"
proof -
  obtain p q where pb: "position b = Vector2D p q" by (cases "position b")
  obtain p' q' where po: "position (bs ! k) = Vector2D p' q'" by (cases "position (bs ! k)")
  let ?d2 = "(p - p') * (p - p') + (q - q') * (q - q')"
  have d: "distance (position b) (position (bs ! k)) = sqrt ?d2"
    by (simp add: pb po distance_def vsub_def magnitude_def)
  have lt: "sqrt ?d2 < separationRadius b \<longleftrightarrow> ?d2 < separationRadius b * separationRadius b"
    using assms(2) by (rule sqrt_less_sq)
  show ?thesis
  proof (cases "0 < ?d2 \<and> ?d2 < separationRadius b * separationRadius b")
    case True
    then have pos: "0 < sqrt ?d2" by simp
    have n: "vdiv (normalize (vsub (position b) (position (bs ! k)))) (sqrt ?d2)
             = Vector2D ((p - p') * (1 / sqrt ?d2) * (1 / sqrt ?d2)) ((q - q') * (1 / sqrt ?d2) * (1 / sqrt ?d2))"
      using pos by (simp add: pb po vsub_def normalize_def magnitude_def vdiv_def Let_def)
    show ?thesis
      unfolding d n Let_def using True pos lt assms(1)
      by (simp add: scan_step_def pb po Let_def vadd_def)
  next
    case False
    then have "\<not> (0 < sqrt ?d2 \<and> sqrt ?d2 < separationRadius b)"
      using lt by simp
    then show ?thesis
      unfolding d Let_def using False assms(1)
      by (auto simp add: scan_step_def pb po Let_def)
  qed
qed


lemma scan_step_ali:
  assumes "k < length bs" and "0 \<le> alignmentRadius b"
  shows "(let s' = scan_step (vec_x (position b)) (vec_y (position b))
                     sepR2 (alignmentRadius b * alignmentRadius b) cohR2
                     (map (\<lambda>b. vec_x (position b)) bs) (map (\<lambda>b. vec_y (position b)) bs)
                     (map (\<lambda>b. vec_x (velocity b)) bs) (map (\<lambda>b. vec_y (velocity b)) bs) s k
          in (Vector2D (ali_x s') (ali_y s'), ali_c s'))
         = (let d = distance (position b) (position (bs ! k)) in
            if d > 0 \<and> d < alignmentRadius b then
              (vadd (Vector2D (ali_x s) (ali_y s)) (velocity (bs ! k)), ali_c s + 1)
            else (Vector2D (ali_x s) (ali_y s), ali_c s))"
proof -
  obtain p q where pb: "position b = Vector2D p q" by (cases "position b")
  obtain p' q' where po: "position (bs ! k) = Vector2D p' q'" by (cases "position (bs ! k)")
  let ?d2 = "(p - p') * (p - p') + (q - q') * (q - q')"
  have d: "distance (position b) (position (bs ! k)) = sqrt ?d2"
    by (simp add: pb po distance_def vsub_def magnitude_def)
  have lt: "sqrt ?d2 < alignmentRadius b \<longleftrightarrow> ?d2 < alignmentRadius b * alignmentRadius b"
    using assms(2) by (rule sqrt_less_sq)
  show ?thesis
  proof (cases "0 < ?d2 \<and> ?d2 < alignmentRadius b * alignmentRadius b")
    case True
    then have pos: "0 < sqrt ?d2" by simp
    show ?thesis
      unfolding d Let_def using True pos lt assms(1)
      by (simp add: scan_step_def pb po Let_def vadd_def)
  next
    case False
    then have "\<not> (0 < sqrt ?d2 \<and> sqrt ?d2 < alignmentRadius b)"
      using lt by simp
    then show ?thesis
      unfolding d Let_def using False assms(1)
      by (auto simp add: scan_step_def pb po Let_def)
  qed
qed

lemma scan_step_coh:
  assumes "k < length bs" and "0 \<le> cohesionRadius b"
  shows "(let s' = scan_step (vec_x (position b)) (vec_y (position b))
                     sepR2 aliR2 (cohesionRadius b * cohesionRadius b)
                     (map (\<lambda>b. vec_x (position b)) bs) (map (\<lambda>b. vec_y (position b)) bs) vx vy s k
          in (Vector2D (coh_x s') (coh_y s'), coh_c s'))
         = (let d = distance (position b) (position (bs ! k)) in
            if d > 0 \<and> d < cohesionRadius b then
              (vadd (Vector2D (coh_x s) (coh_y s)) (position (bs ! k)), coh_c s + 1)
            else (Vector2D (coh_x s) (coh_y s), coh_c s))"
proof -
  obtain p q where pb: "position b = Vector2D p q" by (cases "position b")
  obtain p' q' where po: "position (bs ! k) = Vector2D p' q'" by (cases "position (bs ! k)")
  let ?d2 = "(p - p') * (p - p') + (q - q') * (q - q')"
  have d: "distance (position b) (position (bs ! k)) = sqrt ?d2"
    by (simp add: pb po distance_def vsub_def magnitude_def)
  have lt: "sqrt ?d2 < cohesionRadius b \<longleftrightarrow> ?d2 < cohesionRadius b * cohesionRadius b"
    using assms(2) by (rule sqrt_less_sq)
  show ?thesis
  proof (cases "0 < ?d2 \<and> ?d2 < cohesionRadius b * cohesionRadius b")
    case True
    then have pos: "0 < sqrt ?d2" by simp
    show ?thesis
      unfolding d Let_def using True pos lt assms(1)
      by (simp add: scan_step_def pb po Let_def vadd_def)
  next
    case False
    then have "\<not> (0 < sqrt ?d2 \<and> sqrt ?d2 < cohesionRadius b)"
      using lt by simp
    then show ?thesis
      unfolding d Let_def using False assms(1)
      by (auto simp add: scan_step_def pb po Let_def)
  qed
qed

lemma scan_separate_loop:
  assumes "0 \<le> separationRadius b"
  shows "k \<le> length bs \<Longrightarrow>
     separate_loop b (drop k bs) (Vector2D (sep_x s) (sep_y s), sep_c s)
     = (let s' = foldl (scan_step (vec_x (position b)) (vec_y (position b))
                     (separationRadius b * separationRadius b) aliR2 cohR2
                     (map (\<lambda>b. vec_x (position b)) bs) (map (\<lambda>b. vec_y (position b)) bs) vx vy)
                   s [k..<length bs]
        in (Vector2D (sep_x s') (sep_y s'), sep_c s'))"
proof (induction "length bs - k" arbitrary: k s)
  case 0
  then show ?case by simp
next
  case (Suc m)
  then have k: "k < length bs" and m: "m = length bs - Suc k" and k': "Suc k \<le> length bs"
    by simp_all
  let ?step = "scan_step (vec_x (position b)) (vec_y (position b))
                     (separationRadius b * separationRadius b) aliR2 cohR2
                     (map (\<lambda>b. vec_x (position b)) bs) (map (\<lambda>b. vec_y (position b)) bs) vx vy"
  have dr: "drop k bs = bs ! k # drop (Suc k) bs"
    using k by (simp add: Cons_nth_drop_Suc)
  have up: "[k..<length bs] = k # [Suc k..<length bs]"
    using k by (simp add: upt_conv_Cons)
  have st: "(Vector2D (sep_x (?step s k)) (sep_y (?step s k)), sep_c (?step s k))
         = (let d = distance (position b) (position (bs ! k)) in
            if d > 0 \<and> d < separationRadius b then
              (vadd (Vector2D (sep_x s) (sep_y s))
                    (vdiv (normalize (vsub (position b) (position (bs ! k)))) d), sep_c s + 1)
            else (Vector2D (sep_x s) (sep_y s), sep_c s))"
    using scan_step_sep [OF k assms, of aliR2 cohR2 vx vy s] by (simp add: Let_def)
  have "separate_loop b (drop k bs) (Vector2D (sep_x s) (sep_y s), sep_c s)
        = separate_loop b (drop (Suc k) bs)
            (Vector2D (sep_x (?step s k)) (sep_y (?step s k)), sep_c (?step s k))"
    unfolding dr st by (simp add: Let_def)
  also have "\<dots> = (let s' = foldl ?step (?step s k) [Suc k..<length bs]
                     in (Vector2D (sep_x s') (sep_y s'), sep_c s'))"
    using Suc.hyps(1) [OF m k'] .
  finally show ?case
    unfolding up by simp
qed


lemma scan_align_loop:
  assumes "0 \<le> alignmentRadius b"
  shows "k \<le> length bs \<Longrightarrow>
     align_loop b (drop k bs) (Vector2D (ali_x s) (ali_y s), ali_c s)
     = (let s' = foldl (scan_step (vec_x (position b)) (vec_y (position b))
                     sepR2 (alignmentRadius b * alignmentRadius b) cohR2
                     (map (\<lambda>b. vec_x (position b)) bs) (map (\<lambda>b. vec_y (position b)) bs)
                     (map (\<lambda>b. vec_x (velocity b)) bs) (map (\<lambda>b. vec_y (velocity b)) bs))
                   s [k..<length bs]
        in (Vector2D (ali_x s') (ali_y s'), ali_c s'))"
proof (induction "length bs - k" arbitrary: k s)
  case 0
  then show ?case by simp
next
  case (Suc m)
  then have k: "k < length bs" and m: "m = length bs - Suc k" and k': "Suc k \<le> length bs"
    by simp_all
  let ?step = "scan_step (vec_x (position b)) (vec_y (position b))
                     sepR2 (alignmentRadius b * alignmentRadius b) cohR2
                     (map (\<lambda>b. vec_x (position b)) bs) (map (\<lambda>b. vec_y (position b)) bs)
                     (map (\<lambda>b. vec_x (velocity b)) bs) (map (\<lambda>b. vec_y (velocity b)) bs)"
  have dr: "drop k bs = bs ! k # drop (Suc k) bs"
    using k by (simp add: Cons_nth_drop_Suc)
  have up: "[k..<length bs] = k # [Suc k..<length bs]"
    using k by (simp add: upt_conv_Cons)
  have st: "(Vector2D (ali_x (?step s k)) (ali_y (?step s k)), ali_c (?step s k))
         = (let d = distance (position b) (position (bs ! k)) in
            if d > 0 \<and> d < alignmentRadius b then
              (vadd (Vector2D (ali_x s) (ali_y s)) (velocity (bs ! k)), ali_c s + 1)
            else (Vector2D (ali_x s) (ali_y s), ali_c s))"
    using scan_step_ali [OF k assms, of sepR2 cohR2 s] by (simp add: Let_def)
  have "align_loop b (drop k bs) (Vector2D (ali_x s) (ali_y s), ali_c s)
        = align_loop b (drop (Suc k) bs)
            (Vector2D (ali_x (?step s k)) (ali_y (?step s k)), ali_c (?step s k))"
    unfolding dr st by (simp add: Let_def)
  also have "\<dots> = (let s' = foldl ?step (?step s k) [Suc k..<length bs]
                     in (Vector2D (ali_x s') (ali_y s'), ali_c s'))"
    using Suc.hyps(1) [OF m k'] .
  finally show ?case
    unfolding up by simp
qed

lemma scan_cohesion_loop:
  assumes "0 \<le> cohesionRadius b"
  shows "k \<le> length bs \<Longrightarrow>
     cohesion_loop b (drop k bs) (Vector2D (coh_x s) (coh_y s), coh_c s)
     = (let s' = foldl (scan_step (vec_x (position b)) (vec_y (position b))
                     sepR2 aliR2 (cohesionRadius b * cohesionRadius b)
                     (map (\<lambda>b. vec_x (position b)) bs) (map (\<lambda>b. vec_y (position b)) bs) vx vy)
                   s [k..<length bs]
        in (Vector2D (coh_x s') (coh_y s'), coh_c s'))"
proof (induction "length bs - k" arbitrary: k s)
  case 0
  then show ?case by simp
next
  case (Suc m)
  then have k: "k < length bs" and m: "m = length bs - Suc k" and k': "Suc k \<le> length bs"
    by simp_all
  let ?step = "scan_step (vec_x (position b)) (vec_y (position b))
                     sepR2 aliR2 (cohesionRadius b * cohesionRadius b)
                     (map (\<lambda>b. vec_x (position b)) bs) (map (\<lambda>b. vec_y (position b)) bs) vx vy"
  have dr: "drop k bs = bs ! k # drop (Suc k) bs"
    using k by (simp add: Cons_nth_drop_Suc)
  have up: "[k..<length bs] = k # [Suc k..<length bs]"
    using k by (simp add: upt_conv_Cons)
  have st: "(Vector2D (coh_x (?step s k)) (coh_y (?step s k)), coh_c (?step s k))
         = (let d = distance (position b) (position (bs ! k)) in
            if d > 0 \<and> d < cohesionRadius b then
              (vadd (Vector2D (coh_x s) (coh_y s)) (position (bs ! k)), coh_c s + 1)
            else (Vector2D (coh_x s) (coh_y s), coh_c s))"
    using scan_step_coh [OF k assms, of sepR2 aliR2 vx vy s] by (simp add: Let_def)
  have "cohesion_loop b (drop k bs) (Vector2D (coh_x s) (coh_y s), coh_c s)
        = cohesion_loop b (drop (Suc k) bs)
            (Vector2D (coh_x (?step s k)) (coh_y (?step s k)), coh_c (?step s k))"
    unfolding dr st by (simp add: Let_def)
  also have "\<dots> = (let s' = foldl ?step (?step s k) [Suc k..<length bs]
                     in (Vector2D (coh_x s') (coh_y s'), coh_c s'))"
    using Suc.hyps(1) [OF m k'] .
  finally show ?case
    unfolding up by simp
qed

text \<open>A loop that counts nothing leaves its sum alone.\<close>

lemma separate_loop_count:
  "separate_loop b bs (st, c) = (st', c') \<Longrightarrow> c \<le> c' \<and> (c' = c \<longrightarrow> st' = st)"
proof (induction bs arbitrary: st c)
  case Nil
  then show ?case by simp
next
  case (Cons other rest)
  show ?case
  proof (cases "0 < distance (position b) (position other)
                \<and> distance (position b) (position other) < separationRadius b")
    case True
    with Cons.prems obtain st1 where "separate_loop b rest (st1, c + 1) = (st', c')"
      by (auto simp: Let_def)
    from Cons.IH [OF this] show ?thesis by simp
  next
    case False
    with Cons.prems have "separate_loop b rest (st, c) = (st', c')"
      by (auto simp: Let_def)
    from Cons.IH [OF this] show ?thesis .
  qed
qed


lemma steer_fast_sel:
  assumes "0 \<le> mf" and "0 < p * p + q * q"
  shows "fst (fast_limit (p * (1 / sqrt (p * p + q * q)) * ms - vix)
                         (q * (1 / sqrt (p * p + q * q)) * ms - viy) mf)
         = vec_x (limit (vsub (vscale (normalize (Vector2D p q)) ms) (Vector2D vix viy)) mf)"
    and "snd (fast_limit (p * (1 / sqrt (p * p + q * q)) * ms - vix)
                         (q * (1 / sqrt (p * p + q * q)) * ms - viy) mf)
         = vec_y (limit (vsub (vscale (normalize (Vector2D p q)) ms) (Vector2D vix viy)) mf)"
  by (simp_all only: steer_fast [OF assms] Vector2D.sel)

lemma force_sep_separate:
  assumes loop: "separate_loop b bs (Vector2D 0 0, 0) = (Vector2D (sep_x s) (sep_y s), sep_c s)"
    and mf: "0 \<le> maxForce b"
  shows "force_sep s (vec_x (velocity b)) (vec_y (velocity b)) (maxSpeed b) (maxForce b) acc
         = (fst acc + (15 / 10) * vec_x (separate b bs), snd acc + (15 / 10) * vec_y (separate b bs))"
proof (cases "sep_c s > 0")
  case False
  then have "Vector2D (sep_x s) (sep_y s) = Vector2D 0 0"
    using separate_loop_count [OF loop] by simp
  with False show ?thesis
    by (simp add: force_sep_def separate_def loop)
next
  case True
  define p where "p = sep_x s / real (sep_c s)"
  define q where "q = sep_y s / real (sep_c s)"
  have sep: "separate b bs =
        (if magnitude (Vector2D p q) > 0 then
           limit (vsub (vscale (normalize (Vector2D p q)) (maxSpeed b))
                       (Vector2D (vec_x (velocity b)) (vec_y (velocity b)))) (maxForce b)
         else Vector2D p q)"
    using True by (simp add: separate_def loop Let_def vdiv_def p_def q_def)
  show ?thesis
  proof (cases "0 < p * p + q * q")
    case pos: True
    then have "0 < magnitude (Vector2D p q)" by (simp add: magnitude_def)
    then have "separate b bs = limit (vsub (vscale (normalize (Vector2D p q)) (maxSpeed b))
                       (Vector2D (vec_x (velocity b)) (vec_y (velocity b)))) (maxForce b)"
      by (simp only: sep if_True)
    then show ?thesis
      unfolding force_sep_def Let_def split_def p_def [symmetric] q_def [symmetric]
      by (simp only: True pos if_True steer_fast_sel [OF mf pos])
  next
    case zero: False
    have "0 \<le> p * p + q * q" by simp
    with zero have z: "p * p + q * q = 0" by linarith
    then have "p = 0 \<and> q = 0" by (simp only: sum_squares_eq_zero_iff)
    moreover have "\<not> 0 < magnitude (Vector2D p q)" using z by (simp add: magnitude_def)
    ultimately have "separate b bs = Vector2D 0 0" by (simp add: sep)
    then show ?thesis
      unfolding force_sep_def Let_def split_def p_def [symmetric] q_def [symmetric]
      using True zero by simp
  qed
qed


lemma force_ali_align:
  assumes loop: "align_loop b bs (Vector2D 0 0, 0) = (Vector2D (ali_x s) (ali_y s), ali_c s)"
    and mf: "0 \<le> maxForce b"
    and nz: "ali_c s > 0 \<Longrightarrow> vdiv (Vector2D (ali_x s) (ali_y s)) (real (ali_c s)) \<noteq> Vector2D 0 0"
  shows "force_ali s (vec_x (velocity b)) (vec_y (velocity b)) (maxSpeed b) (maxForce b) acc
         = (fst acc + vec_x (align b bs), snd acc + vec_y (align b bs))"
proof (cases "ali_c s > 0")
  case False
  then show ?thesis
    by (simp add: force_ali_def align_def loop)
next
  case True
  define p where "p = ali_x s / real (ali_c s)"
  define q where "q = ali_y s / real (ali_c s)"
  have "Vector2D p q \<noteq> Vector2D 0 0"
    using nz [OF True] by (simp add: vdiv_def p_def q_def)
  then have "0 < magnitude (Vector2D p q)" by (simp add: magnitude_pos_iff)
  then have pos: "0 < p * p + q * q" by (simp add: magnitude_def)
  have "align b bs = limit (vsub (vscale (normalize (Vector2D p q)) (maxSpeed b))
                       (Vector2D (vec_x (velocity b)) (vec_y (velocity b)))) (maxForce b)"
    using True by (simp add: align_def loop Let_def vdiv_def p_def q_def)
  then show ?thesis
    unfolding force_ali_def Let_def split_def p_def [symmetric] q_def [symmetric]
    by (simp only: True pos if_True steer_fast_sel [OF mf pos])
qed

lemma force_coh_cohesion:
  assumes loop: "cohesion_loop b bs (Vector2D 0 0, 0) = (Vector2D (coh_x s) (coh_y s), coh_c s)"
    and mf: "0 \<le> maxForce b"
    and nz: "coh_c s > 0 \<Longrightarrow> vdiv (Vector2D (coh_x s) (coh_y s)) (real (coh_c s)) \<noteq> position b"
  shows "force_coh s (vec_x (position b)) (vec_y (position b))
           (vec_x (velocity b)) (vec_y (velocity b)) (maxSpeed b) (maxForce b) acc
         = (fst acc + vec_x (cohesion b bs), snd acc + vec_y (cohesion b bs))"
proof (cases "coh_c s > 0")
  case False
  then show ?thesis
    by (simp add: force_coh_def cohesion_def loop)
next
  case True
  define p where "p = coh_x s / real (coh_c s) - vec_x (position b)"
  define q where "q = coh_y s / real (coh_c s) - vec_y (position b)"
  have tgt: "vsub (vdiv (Vector2D (coh_x s) (coh_y s)) (real (coh_c s))) (position b) = Vector2D p q"
    by (simp add: vsub_def vdiv_def p_def q_def)
  have "Vector2D p q \<noteq> Vector2D 0 0"
    using nz [OF True] unfolding tgt [symmetric] by (simp add: vsub_eq_zero_iff)
  then have "0 < magnitude (Vector2D p q)" by (simp add: magnitude_pos_iff)
  then have pos: "0 < p * p + q * q" by (simp add: magnitude_def)
  have "cohesion b bs = seek b (vdiv (Vector2D (coh_x s) (coh_y s)) (real (coh_c s)))"
    using True by (simp add: cohesion_def loop Let_def)
  also have "\<dots> = limit (vsub (vscale (normalize (Vector2D p q)) (maxSpeed b))
                       (Vector2D (vec_x (velocity b)) (vec_y (velocity b)))) (maxForce b)"
    by (simp add: seek_def Let_def tgt)
  finally show ?thesis
    unfolding force_coh_def Let_def split_def p_def [symmetric] q_def [symmetric]
    by (simp only: True pos if_True steer_fast_sel [OF mf pos])
qed

lemma force_bias_environmentalBias:
  assumes mf: "0 \<le> maxForce b"
  shows "force_bias h (vec_y (position b)) (vec_x (velocity b)) (vec_y (velocity b))
           (maxSpeed b) (maxForce b) acc
         = (fst acc + (8 / 10) * vec_x (environmentalBias b w h),
            snd acc + (8 / 10) * vec_y (environmentalBias b w h))"
proof -
  define q where "q = (if vec_y (position b) > real_of_int h * (3 / 10) then
                      (let distanceFromTop = (vec_y (position b) - real_of_int h * (3 / 10))
                                             / (real_of_int h * (3 / 10))
                       in - distanceFromTop * (8 / 10))
                    else 15 / 100)"
  define sp where "sp = maxSpeed b * (3 / 10 + \<bar>vec_y (position b) - real_of_int h * (2 / 10)\<bar>
                                      / (real_of_int h * (5 / 10)) * (5 / 10))"
  have "0 \<le> q * q" by simp
  moreover have "(0::real) < 5 / 10 * (5 / 10)" by simp
  ultimately have pos: "0 < 5 / 10 * (5 / 10) + q * q" by linarith
  have mf2: "0 \<le> maxForce b * (5 / 10)" using mf by simp
  have "environmentalBias b w h
        = limit (vsub (vscale (normalize (Vector2D (5 / 10) q)) sp)
                       (Vector2D (vec_x (velocity b)) (vec_y (velocity b)))) (maxForce b * (5 / 10))"
    by (simp add: environmentalBias_def Let_def q_def sp_def)
  then show ?thesis
    unfolding force_bias_def Let_def split_def q_def [symmetric, unfolded Let_def]
      sp_def [symmetric]
    by (simp only: pos if_True steer_fast_sel [OF mf2 pos])
qed


lemma boid_force_flock:
  assumes i: "i < length bs"
    and uni: "separationRadius (bs ! i) = separationRadius (bs ! 0)"
             "alignmentRadius (bs ! i) = alignmentRadius (bs ! 0)"
             "cohesionRadius (bs ! i) = cohesionRadius (bs ! 0)"
    and nonneg: "0 \<le> separationRadius (bs ! i)" "0 \<le> alignmentRadius (bs ! i)"
                "0 \<le> cohesionRadius (bs ! i)" "0 \<le> maxForce (bs ! i)"
    and nd: "\<not> align_mean_zero (bs ! i) bs" "\<not> cohesion_mean_at_self (bs ! i) bs"
  shows "flock (bs ! i) bs w h
         = (let force = boid_force bs h
                          (map (\<lambda>b. vec_x (position b)) bs) (map (\<lambda>b. vec_y (position b)) bs)
                          (map (\<lambda>b. vec_x (velocity b)) bs) (map (\<lambda>b. vec_y (velocity b)) bs)
                          (separationRadius (bs ! 0) * separationRadius (bs ! 0))
                          (alignmentRadius (bs ! 0) * alignmentRadius (bs ! 0))
                          (cohesionRadius (bs ! 0) * cohesionRadius (bs ! 0)) i
            in (bs ! i)\<lparr>acceleration :=
                  Vector2D (vec_x (acceleration (bs ! i)) + fst force)
                           (vec_y (acceleration (bs ! i)) + snd force)\<rparr>)"
proof -
  define b where "b = bs ! i"
  let ?px = "map (\<lambda>b. vec_x (position b)) bs" and ?py = "map (\<lambda>b. vec_y (position b)) bs"
  let ?vx = "map (\<lambda>b. vec_x (velocity b)) bs" and ?vy = "map (\<lambda>b. vec_y (velocity b)) bs"
  define s where "s = foldl (scan_step (vec_x (position b)) (vec_y (position b))
                     (separationRadius b * separationRadius b)
                     (alignmentRadius b * alignmentRadius b)
                     (cohesionRadius b * cohesionRadius b) ?px ?py ?vx ?vy) scan_init [0..<length bs]"
  have l_sep: "separate_loop b bs (Vector2D 0 0, 0) = (Vector2D (sep_x s) (sep_y s), sep_c s)"
    using scan_separate_loop [of b 0 bs scan_init] nonneg(1)
    by (simp add: s_def b_def scan_init_def Let_def)
  have l_ali: "align_loop b bs (Vector2D 0 0, 0) = (Vector2D (ali_x s) (ali_y s), ali_c s)"
    using scan_align_loop [of b 0 bs scan_init] nonneg(2)
    by (simp add: s_def b_def scan_init_def Let_def)
  have l_coh: "cohesion_loop b bs (Vector2D 0 0, 0) = (Vector2D (coh_x s) (coh_y s), coh_c s)"
    using scan_cohesion_loop [of b 0 bs scan_init] nonneg(3)
    by (simp add: s_def b_def scan_init_def Let_def)
  have mf: "0 \<le> maxForce b" using nonneg(4) by (simp add: b_def)
  have nz_ali: "ali_c s > 0 \<Longrightarrow> vdiv (Vector2D (ali_x s) (ali_y s)) (real (ali_c s)) \<noteq> Vector2D 0 0"
    using nd(1) by (simp add: align_mean_zero_def b_def [symmetric] l_ali)
  have nz_coh: "coh_c s > 0 \<Longrightarrow> vdiv (Vector2D (coh_x s) (coh_y s)) (real (coh_c s)) \<noteq> position b"
    using nd(2) by (simp add: cohesion_mean_at_self_def b_def [symmetric] l_coh)
  let ?vix = "vec_x (velocity b)" and ?viy = "vec_y (velocity b)"
  have force: "boid_force bs h ?px ?py ?vx ?vy
                 (separationRadius (bs ! 0) * separationRadius (bs ! 0))
                 (alignmentRadius (bs ! 0) * alignmentRadius (bs ! 0))
                 (cohesionRadius (bs ! 0) * cohesionRadius (bs ! 0)) i
        = force_bias h (vec_y (position b)) ?vix ?viy (maxSpeed b) (maxForce b)
            (force_coh s (vec_x (position b)) (vec_y (position b)) ?vix ?viy (maxSpeed b) (maxForce b)
              (force_ali s ?vix ?viy (maxSpeed b) (maxForce b)
                (force_sep s ?vix ?viy (maxSpeed b) (maxForce b) (0, 0))))"
    using i by (simp add: boid_force_def Let_def s_def b_def uni [symmetric])
  have fx: "fst (boid_force bs h ?px ?py ?vx ?vy
                 (separationRadius (bs ! 0) * separationRadius (bs ! 0))
                 (alignmentRadius (bs ! 0) * alignmentRadius (bs ! 0))
                 (cohesionRadius (bs ! 0) * cohesionRadius (bs ! 0)) i)
        = (15 / 10) * vec_x (separate b bs) + vec_x (align b bs) + vec_x (cohesion b bs)
          + (8 / 10) * vec_x (environmentalBias b w h)"
    and fy: "snd (boid_force bs h ?px ?py ?vx ?vy
                 (separationRadius (bs ! 0) * separationRadius (bs ! 0))
                 (alignmentRadius (bs ! 0) * alignmentRadius (bs ! 0))
                 (cohesionRadius (bs ! 0) * cohesionRadius (bs ! 0)) i)
        = (15 / 10) * vec_y (separate b bs) + vec_y (align b bs) + vec_y (cohesion b bs)
          + (8 / 10) * vec_y (environmentalBias b w h)"
    unfolding force
    by (simp_all add: force_bias_environmentalBias [OF mf, of h _ w]
        force_coh_cohesion [OF l_coh mf nz_coh] force_ali_align [OF l_ali mf nz_ali]
        force_sep_separate [OF l_sep mf])
  have "flock b bs w h
        = b\<lparr>acceleration :=
              Vector2D (vec_x (acceleration b)
                        + ((15 / 10) * vec_x (separate b bs) + vec_x (align b bs) + vec_x (cohesion b bs)
                           + (8 / 10) * vec_x (environmentalBias b w h)))
                       (vec_y (acceleration b)
                        + ((15 / 10) * vec_y (separate b bs) + vec_y (align b bs) + vec_y (cohesion b bs)
                           + (8 / 10) * vec_y (environmentalBias b w h)))\<rparr>"
    by (simp add: flock_def Let_def applyForce_def vadd_def vscale_def algebra_simps)
  then show ?thesis
    unfolding Let_def fx fy b_def .
qed



subsection \<open>The two update paths on the three-bird flock\<close>

text \<open>Square roots of the rational squares that occur are supplied by hand.\<close>

lemma magnitude_eqI: "0 \<le> m \<Longrightarrow> p * p + q * q = m * m \<Longrightarrow> magnitude (Vector2D p q) = m"
  by (simp add: magnitude_def)

lemma sqrt_eqI: "0 \<le> m \<Longrightarrow> q = m * m \<Longrightarrow> sqrt q = m"
  by simp

lemma magnitude_3_4: "magnitude (Vector2D 3 4) = 5"
  by (rule magnitude_eqI) simp_all

lemma magnitude_0_1: "magnitude (Vector2D 0 1) = 1"
  by (rule magnitude_eqI) simp_all

text \<open>The serial path for the middle bird, rule by rule.\<close>

lemma middle_separate: "separate (heading_bird 100 360) (birds symmetric_flock) = Vector2D 0 0"
  by (simp add: symmetric_flock_def heading_bird_def Bird_init_def separate_def Let_def distance_horizontal)

lemma magnitude_heading: "magnitude (Vector2D (10 / 13) (- (24 / 13))) = 2"
  by (rule magnitude_eqI) simp_all

lemma magnitude_heading_neg: "magnitude (Vector2D (- (10 / 13)) (24 / 13)) = 2"
  by (rule magnitude_eqI) simp_all

lemma magnitude_zero_vec: "magnitude (Vector2D 0 0) = 0"
  by (rule magnitude_eqI) simp_all

lemma middle_align: "align (heading_bird 100 360) (birds symmetric_flock) = Vector2D 0 0"
  by (simp add: symmetric_flock_def heading_bird_def Bird_init_def align_def Let_def distance_horizontal
     vadd_def vdiv_def normalize_def magnitude_heading vscale_def vsub_def limit_def magnitude_zero_vec)

lemma middle_cohesion: "cohesion (heading_bird 100 360) (birds symmetric_flock) = Vector2D (- (3 / 260)) (9 / 325)"
  by (simp add: symmetric_flock_def heading_bird_def Bird_init_def cohesion_def Let_def distance_horizontal
     vadd_def vdiv_def seek_def normalize_def magnitude_heading magnitude_heading_neg vscale_def vsub_def limit_def magnitude_zero_vec)

lemma magnitude_bias: "magnitude (Vector2D (1 / 2) (- (6 / 5))) = 13 / 10"
  by (rule magnitude_eqI) simp_all

lemma magnitude_bias_steer: "magnitude (Vector2D (- (3 / 26)) (18 / 65)) = 3 / 10"
  by (rule magnitude_eqI) simp_all

lemma middle_bias: "environmentalBias (heading_bird 100 360) 640 480 = Vector2D (- (3 / 520)) (9 / 650)"
  apply (simp add: heading_bird_def Bird_init_def environmentalBias_def Let_def
     normalize_def magnitude_bias vscale_def vsub_def limit_def magnitude_bias_steer)
  done

lemma middle_flock:
  "flock (heading_bird 100 360) (birds symmetric_flock) 640 480
   = (heading_bird 100 360)\<lparr>acceleration := Vector2D (- (21 / 1300)) (63 / 1625)\<rparr>"
proof -
  have "flock (heading_bird 100 360) (birds symmetric_flock) 640 480
        = (heading_bird 100 360)\<lparr>acceleration :=
            vadd (acceleration (heading_bird 100 360)) (Vector2D (- (21 / 1300)) (63 / 1625))\<rparr>"
    by (simp add: flock_def Let_def middle_separate middle_align middle_cohesion middle_bias applyForce_def vscale_def vadd_def)
  then show ?thesis
    by (simp add: heading_bird_def Bird_init_def vadd_def)
qed

lemma magnitude_serial_velocity: "magnitude (Vector2D (979 / 1300) (- (2937 / 1625))) = 979 / 500"
  by (rule magnitude_eqI) simp_all

lemma middle_update_serial: "update ((heading_bird 100 360)\<lparr>acceleration := Vector2D (- (21 / 1300)) (63 / 1625)\<rparr>)
  = (heading_bird 100 360)\<lparr>velocity := Vector2D (979 / 1300) (- (2937 / 1625)),
        position := Vector2D (130979 / 1300) (582063 / 1625)\<rparr>"
  by (simp add: update_def Let_def heading_bird_def Bird_init_def vadd_def limit_def magnitude_serial_velocity vscale_def)

lemma borders_inside:
  "- radius b \<le> vec_x (position b) \<Longrightarrow> vec_x (position b) \<le> real_of_int w + radius b \<Longrightarrow>
   - radius b \<le> vec_y (position b) \<Longrightarrow> vec_y (position b) \<le> real_of_int h + radius b \<Longrightarrow>
   borders b w h = b"
  by (simp add: borders_def Let_def)

lemma middle_serial:
  "birds (updateSerial symmetric_flock) ! 0
   = (heading_bird 100 360)\<lparr>velocity := Vector2D (979 / 1300) (- (2937 / 1625)),
        position := Vector2D (130979 / 1300) (582063 / 1625)\<rparr>"
proof -
  have "birds (updateSerial symmetric_flock) ! 0
        = borders (update (flock (heading_bird 100 360) (birds symmetric_flock) 640 480)) 640 480"
    using updateSerial_nth [of 0 symmetric_flock] by (simp add: symmetric_flock_def)
  also have "\<dots> = (heading_bird 100 360)\<lparr>velocity := Vector2D (979 / 1300) (- (2937 / 1625)),
        position := Vector2D (130979 / 1300) (582063 / 1625)\<rparr>"
    unfolding middle_flock middle_update_serial
    by (rule borders_inside) (simp_all add: heading_bird_def Bird_init_def)
  finally show ?thesis .
qed

text \<open>The parallel path for the middle bird: the scan, the four force terms, the integration.\<close>

lemma sqrt_169_100: "sqrt (169 / 100) = 13 / 10"
  by (rule sqrt_eqI) simp_all

lemma sqrt_9_100: "sqrt (9 / 100) = 3 / 10"
  by (rule sqrt_eqI) simp_all

lemma upt_3: "[0..<3] = [0, 1, 2]"
  by code_simp

lemma middle_scan_0: "scan_step 100 360 625 2500 2500 snap_px snap_py snap_vx snap_vy s 0 = s"
  by (simp add: scan_step_def snap_px_def snap_py_def)

lemma middle_scan_1: "scan_step 100 360 625 2500 2500 snap_px snap_py snap_vx snap_vy s (Suc 0)
  = s\<lparr>ali_x := ali_x s + 10 / 13, ali_y := ali_y s + - (24 / 13), ali_c := ali_c s + 1,
      coh_x := coh_x s + 70, coh_y := coh_y s + 360, coh_c := coh_c s + 1\<rparr>"
  by (simp add: scan_step_def snap_px_def snap_py_def snap_vx_def snap_vy_def)

lemma middle_scan_2: "scan_step 100 360 625 2500 2500 snap_px snap_py snap_vx snap_vy s 2
  = s\<lparr>ali_x := ali_x s + 10 / 13, ali_y := ali_y s + - (24 / 13), ali_c := ali_c s + 1,
      coh_x := coh_x s + 130, coh_y := coh_y s + 360, coh_c := coh_c s + 1\<rparr>"
  by (simp add: scan_step_def snap_px_def snap_py_def snap_vx_def snap_vy_def)

lemma middle_scan:
  "foldl (scan_step 100 360 625 2500 2500 snap_px snap_py snap_vx snap_vy) scan_init [0..<3]
   = \<lparr> sep_x = 0, sep_y = 0, sep_c = 0, ali_x = 20 / 13, ali_y = - (48 / 13), ali_c = 2,
       coh_x = 200, coh_y = 720, coh_c = 2 \<rparr>"
  by (simp add: upt_3 middle_scan_0 middle_scan_1 middle_scan_2 scan_init_def)

lemma fast_limit_zero: "fast_limit 0 0 m = (0, 0)"
  by (simp add: fast_limit_def)

lemma middle_force_ali:
  "force_ali \<lparr> sep_x = 0, sep_y = 0, sep_c = 0, ali_x = 20 / 13, ali_y = - (48 / 13), ali_c = 2,
       coh_x = 200, coh_y = 720, coh_c = 2 \<rparr> (10 / 13) (- (24 / 13)) 2 (3 / 100) acc = acc"
  by (simp add: force_ali_def Let_def fast_limit_zero)

lemma middle_force_sep:
  "force_sep \<lparr> sep_x = 0, sep_y = 0, sep_c = 0, ali_x = 20 / 13, ali_y = - (48 / 13), ali_c = 2,
       coh_x = 200, coh_y = 720, coh_c = 2 \<rparr> (10 / 13) (- (24 / 13)) 2 (3 / 100) acc = acc"
  by (simp add: force_sep_def)

lemma middle_force_coh:
  "force_coh \<lparr> sep_x = 0, sep_y = 0, sep_c = 0, ali_x = 20 / 13, ali_y = - (48 / 13), ali_c = 2,
       coh_x = 200, coh_y = 720, coh_c = 2 \<rparr> 100 360 (10 / 13) (- (24 / 13)) 2 (3 / 100) acc = acc"
  by (simp add: force_coh_def)

lemma fast_limit_bias: "fast_limit (- (3 / 26)) (18 / 65) (3 / 200) = (- (3 / 520), 9 / 650)"
  by (simp add: fast_limit_def sqrt_9_100)

lemma middle_force_bias:
  "force_bias 480 360 (10 / 13) (- (24 / 13)) 2 (3 / 100) (0, 0) = (- (3 / 650), 18 / 1625)"
  by (simp add: force_bias_def Let_def sqrt_169_100 fast_limit_bias)

lemma updateParallel_nth:
  assumes "i < length (birds F)"
  shows "birds (updateParallel F) ! i
         = (let bs = birds F;
                force = boid_force bs (windowHeight F)
                          (map (\<lambda>b. vec_x (position b)) bs) (map (\<lambda>b. vec_y (position b)) bs)
                          (map (\<lambda>b. vec_x (velocity b)) bs) (map (\<lambda>b. vec_y (velocity b)) bs)
                          (separationRadius (bs ! 0) * separationRadius (bs ! 0))
                          (alignmentRadius (bs ! 0) * alignmentRadius (bs ! 0))
                          (cohesionRadius (bs ! 0) * cohesionRadius (bs ! 0)) i
            in integrate (bs ! i) (fst force) (snd force) (windowWidth F) (windowHeight F))"
proof -
  from assms have "birds F \<noteq> []" by auto
  with assms show ?thesis by (simp add: updateParallel_def Let_def)
qed

lemma middle_snapshot:
  "map (\<lambda>b. vec_x (position b)) (birds symmetric_flock) = snap_px"
  "map (\<lambda>b. vec_y (position b)) (birds symmetric_flock) = snap_py"
  "map (\<lambda>b. vec_x (velocity b)) (birds symmetric_flock) = snap_vx"
  "map (\<lambda>b. vec_y (velocity b)) (birds symmetric_flock) = snap_vy"
  by (simp_all add: symmetric_flock_def heading_bird_def Bird_init_def
      snap_px_def snap_py_def snap_vx_def snap_vy_def)

lemma middle_force:
  "boid_force (birds symmetric_flock) 480 snap_px snap_py snap_vx snap_vy 625 2500 2500 0
   = (- (3 / 650), 18 / 1625)"
proof -
  have len: "length (birds symmetric_flock) = 3"
    by (simp add: symmetric_flock_def)
  have b0: "maxSpeed (birds symmetric_flock ! 0) = 2" "maxForce (birds symmetric_flock ! 0) = 3 / 100"
    by (simp_all add: symmetric_flock_def heading_bird_def Bird_init_def)
  have s0: "snap_px ! 0 = 100" "snap_py ! 0 = 360" "snap_vx ! 0 = 10 / 13" "snap_vy ! 0 = - (24 / 13)"
    by (simp_all add: snap_px_def snap_py_def snap_vx_def snap_vy_def)
  show ?thesis
    unfolding boid_force_def Let_def len b0 s0 middle_scan
    by (simp only: middle_force_sep middle_force_ali middle_force_coh middle_force_bias)
qed

lemma magnitude_parallel_velocity: "magnitude (Vector2D (497 / 650) (- (2982 / 1625))) = 497 / 250"
  by (rule magnitude_eqI) simp_all

lemma middle_update_parallel:
  "update ((heading_bird 100 360)\<lparr>acceleration := Vector2D (- (3 / 650)) (18 / 1625)\<rparr>)
   = (heading_bird 100 360)\<lparr>velocity := Vector2D (497 / 650) (- (2982 / 1625)),
        position := Vector2D (65497 / 650) (582018 / 1625)\<rparr>"
  by (simp add: update_def Let_def heading_bird_def Bird_init_def vadd_def limit_def magnitude_parallel_velocity vscale_def)

lemma middle_parallel:
  "birds (updateParallel symmetric_flock) ! 0
   = (heading_bird 100 360)\<lparr>velocity := Vector2D (497 / 650) (- (2982 / 1625)),
        position := Vector2D (65497 / 650) (582018 / 1625)\<rparr>"
proof -
  have radii: "separationRadius (birds symmetric_flock ! 0) * separationRadius (birds symmetric_flock ! 0) = 625"
    "alignmentRadius (birds symmetric_flock ! 0) * alignmentRadius (birds symmetric_flock ! 0) = 2500"
    "cohesionRadius (birds symmetric_flock ! 0) * cohesionRadius (birds symmetric_flock ! 0) = 2500"
    by (simp_all add: symmetric_flock_def heading_bird_def Bird_init_def)
  have win: "windowWidth symmetric_flock = 640" "windowHeight symmetric_flock = 480"
    "birds symmetric_flock ! 0 = heading_bird 100 360"
    by (simp_all add: symmetric_flock_def)
  have "birds (updateParallel symmetric_flock) ! 0
        = integrate (heading_bird 100 360) (- (3 / 650)) (18 / 1625) 640 480"
    using updateParallel_nth [of 0 symmetric_flock]
    by (simp add: Let_def middle_snapshot radii win(1,2) middle_force) (simp add: symmetric_flock_def)
  also have "\<dots> = borders (update ((heading_bird 100 360)\<lparr>acceleration := Vector2D (- (3 / 650)) (18 / 1625)\<rparr>)) 640 480"
    by (simp add: integrate_def Let_def heading_bird_def Bird_init_def)
  also have "\<dots> = (heading_bird 100 360)\<lparr>velocity := Vector2D (497 / 650) (- (2982 / 1625)),
        position := Vector2D (65497 / 650) (582018 / 1625)\<rparr>"
    unfolding middle_update_parallel
    by (rule borders_inside) (simp_all add: heading_bird_def Bird_init_def)
  finally show ?thesis .
qed


subsection \<open>What the two paths do in the two cases\<close>

text \<open>
  When birds were counted and their mean position is the bird's own position, \<open>cohesion\<close>
  returns the negated velocity clamped to \<open>maxForce\<close>, and \<open>force_coh\<close> leaves the
  accumulated force as it is. Likewise for \<open>align\<close> and \<open>force_ali\<close> when the mean velocity
  of the counted birds is zero.
\<close>

lemma cohesion_at_self:
  assumes "cohesion_mean_at_self b bs"
  shows "cohesion b bs = limit (vsub (Vector2D 0 0) (velocity b)) (maxForce b)"
proof -
  obtain sum_v count where loop: "cohesion_loop b bs (Vector2D 0 0, 0) = (sum_v, count)"
    by (cases "cohesion_loop b bs (Vector2D 0 0, 0)")
  with assms have "count > 0" and "vdiv sum_v (real count) = position b"
    by (simp_all add: cohesion_mean_at_self_def)
  then show ?thesis
    by (simp add: cohesion_def loop seek_def Let_def vsub_self normalize_zero vscale_zero_vec)
qed

lemma force_coh_at_self:
  assumes loop: "cohesion_loop b bs (Vector2D 0 0, 0) = (Vector2D (coh_x s) (coh_y s), coh_c s)"
    and "cohesion_mean_at_self b bs"
  shows "force_coh s (vec_x (position b)) (vec_y (position b)) vix viy mSpeed mForce acc = acc"
proof -
  from assms have "coh_c s > 0"
    and "vdiv (Vector2D (coh_x s) (coh_y s)) (real (coh_c s)) = position b"
    by (simp_all add: cohesion_mean_at_self_def)
  then have c: "coh_c s > 0"
    and "Vector2D (coh_x s / real (coh_c s)) (coh_y s / real (coh_c s)) = position b"
    by (simp_all add: vdiv_def)
  then have "vec_x (position b) = coh_x s / real (coh_c s)"
    and "vec_y (position b) = coh_y s / real (coh_c s)"
    by (metis Vector2D.sel(1), metis Vector2D.sel(2))
  then show ?thesis
    unfolding force_coh_def Let_def using c by simp
qed

lemma align_mean_zero_steer:
  assumes "align_mean_zero b bs"
  shows "align b bs = limit (vsub (Vector2D 0 0) (velocity b)) (maxForce b)"
proof -
  obtain sum_v count where loop: "align_loop b bs (Vector2D 0 0, 0) = (sum_v, count)"
    by (cases "align_loop b bs (Vector2D 0 0, 0)")
  with assms have "count > 0" and "vdiv sum_v (real count) = Vector2D 0 0"
    by (simp_all add: align_mean_zero_def)
  then show ?thesis
    by (simp add: align_def loop Let_def normalize_zero vscale_zero_vec)
qed

lemma force_ali_mean_zero:
  assumes loop: "align_loop b bs (Vector2D 0 0, 0) = (Vector2D (ali_x s) (ali_y s), ali_c s)"
    and "align_mean_zero b bs"
  shows "force_ali s vix viy mSpeed mForce acc = acc"
proof -
  from assms have "ali_c s > 0"
    and "vdiv (Vector2D (ali_x s) (ali_y s)) (real (ali_c s)) = Vector2D 0 0"
    by (simp_all add: align_mean_zero_def)
  then have c: "ali_c s > 0"
    and p: "ali_x s / real (ali_c s) = 0" and q: "ali_y s / real (ali_c s) = 0"
    by (simp_all add: vdiv_def)
  show ?thesis
    unfolding force_ali_def Let_def p q using c by simp
qed

subsection \<open>Where the two update paths agree\<close>

lemma update_lengths:
  "length (birds (updateSerial F)) = length (birds F)"
  "length (birds (updateParallel F)) = length (birds F)"
  by (simp_all add: updateSerial_def updateParallel_def Let_def flock_pass_snapshot)

lemma update_window:
  "updateSerial F = F\<lparr>birds := birds (updateSerial F)\<rparr>"
  "updateParallel F = F\<lparr>birds := birds (updateParallel F)\<rparr>"
  by (simp_all add: updateSerial_def updateParallel_def Let_def)

lemma update_paths_empty:
  "birds F = [] \<Longrightarrow> updateSerial F = F \<and> updateParallel F = F"
  by (simp add: updateSerial_def updateParallel_def flock_pass_def Let_def)

text \<open>
  When all birds share the three radii of \<^verbatim>\<open>birds[0]\<close>, radii and \<open>maxForce\<close> are
  non-negative and neither of the two cases above occurs for any bird, one step of
  \<open>updateParallel\<close> and one step of \<open>updateSerial\<close> give the same flock (over the reals,
  exactly). The empty flock is included.
\<close>

proposition update_paths_agree:
  assumes uni: "\<forall>b\<in>set (birds F).
                  separationRadius b = separationRadius (birds F ! 0)
                  \<and> alignmentRadius b = alignmentRadius (birds F ! 0)
                  \<and> cohesionRadius b = cohesionRadius (birds F ! 0)"
    and nonneg: "\<forall>b\<in>set (birds F).
                  0 \<le> separationRadius b \<and> 0 \<le> alignmentRadius b
                  \<and> 0 \<le> cohesionRadius b \<and> 0 \<le> maxForce b"
    and nd: "\<forall>b\<in>set (birds F).
                  \<not> align_mean_zero b (birds F) \<and> \<not> cohesion_mean_at_self b (birds F)"
  shows "updateParallel F = updateSerial F"
proof -
  have "birds (updateParallel F) = birds (updateSerial F)"
  proof (rule nth_equalityI)
    show "length (birds (updateParallel F)) = length (birds (updateSerial F))"
      by (simp add: update_lengths)
  next
    fix i
    assume "i < length (birds (updateParallel F))"
    then have i: "i < length (birds F)" by (simp add: update_lengths)
    then have mem: "birds F ! i \<in> set (birds F)" by simp
    have fl: "flock (birds F ! i) (birds F) (windowWidth F) (windowHeight F)
         = (let force = boid_force (birds F) (windowHeight F)
                          (map (\<lambda>b. vec_x (position b)) (birds F)) (map (\<lambda>b. vec_y (position b)) (birds F))
                          (map (\<lambda>b. vec_x (velocity b)) (birds F)) (map (\<lambda>b. vec_y (velocity b)) (birds F))
                          (separationRadius (birds F ! 0) * separationRadius (birds F ! 0))
                          (alignmentRadius (birds F ! 0) * alignmentRadius (birds F ! 0))
                          (cohesionRadius (birds F ! 0) * cohesionRadius (birds F ! 0)) i
            in (birds F ! i)\<lparr>acceleration :=
                  Vector2D (vec_x (acceleration (birds F ! i)) + fst force)
                           (vec_y (acceleration (birds F ! i)) + snd force)\<rparr>)"
      using uni nonneg nd mem by (intro boid_force_flock [OF i]) auto
    show "birds (updateParallel F) ! i = birds (updateSerial F) ! i"
      by (simp add: updateParallel_nth [OF i] updateSerial_nth [OF i] fl Let_def integrate_def)
  qed
  then show ?thesis
    using update_window [of F] by simp
qed

text \<open>The hypotheses hold, for instance, on two birds 30 apart that fly the same way.\<close>

lemma update_paths_agree_two_birds:
  "updateParallel \<lparr>birds = [Bird_init 100 360 0, Bird_init 70 360 0],
                    windowWidth = 640, windowHeight = 480\<rparr>
   = updateSerial \<lparr>birds = [Bird_init 100 360 0, Bird_init 70 360 0],
                    windowWidth = 640, windowHeight = 480\<rparr>"
  by (rule update_paths_agree)
     (simp_all add: Bird_init_def fromAngle_def vscale_def align_mean_zero_def
        cohesion_mean_at_self_def distance_horizontal vadd_def vdiv_def)

subsection \<open>The claims about the vector primitive\<close>

text \<open>
  Claim C7. Normalising the zero vector is a no-op: the result is \<open>(0,0)\<close> and no division
  is executed (with the divisions checked the call still succeeds, on every vector) because
  the divisions sit behind the test \<open>mag > 0\<close>, which fails for magnitude zero; whereas the
  unguarded division of the zero vector by its magnitude fails.
\<close>

theorem normalize_zero_noop:
  "normalize_checked (Vector2D 0 0) = Inr (Vector2D 0 0)
   \<and> normalize (Vector2D 0 0) = Vector2D 0 0
   \<and> (\<forall>a. normalize_checked a \<noteq> Inl NonFinite)
   \<and> vdiv_checked (Vector2D 0 0) (magnitude (Vector2D 0 0)) = Inl NonFinite"
  by (simp add: normalize_checked_eq normalize_def magnitude_def vdiv_checked_def fdiv_def)

text \<open>
  Claim C4. The copy-returning \<open>normalized\<close> is claimed to terminate on every vector and
  to return the unit vector of a non-zero input. The function calls itself on its own copy
  before doing anything else, so it returns on no input at all.
\<close>

theorem normalized_never_returns: "normalized a = None"
proof (cases "normalized a")
  case None
  then show ?thesis .
next
  case (Some w)
  have False
    by (rule normalized.raw_induct [where P = "\<lambda>_ _. False", OF _ Some])
       (auto simp: Let_def split: bind_splits)
  then show ?thesis ..
qed

subsection \<open>Bird: seek, update, borders, the three rules\<close>



text \<open>
  Claim C3. \<open>update\<close> adds the acceleration to the velocity, clamps the velocity to
  \<open>maxSpeed\<close>, adds the clamped velocity to the position and resets the acceleration to
  zero, and changes nothing else. The clamp leaves \<open>velocity + acceleration\<close> as it is when
  its magnitude is at most \<open>maxSpeed\<close> and otherwise scales it by \<open>maxSpeed\<close> over its
  magnitude, keeping its direction. Afterwards the magnitude of the velocity is at most
  \<open>maxSpeed\<close> (for a non-negative cap, as the constructor sets it).
\<close>

theorem update_steps:
  "update b =
     b\<lparr> velocity := limit (vadd (velocity b) (acceleration b)) (maxSpeed b),
        position := vadd (position b) (limit (vadd (velocity b) (acceleration b)) (maxSpeed b)),
        acceleration := Vector2D 0 0 \<rparr>
   \<and> (magnitude (vadd (velocity b) (acceleration b)) \<le> maxSpeed b \<longrightarrow>
        velocity (update b) = vadd (velocity b) (acceleration b))
   \<and> (maxSpeed b < magnitude (vadd (velocity b) (acceleration b)) \<longrightarrow>
        velocity (update b)
        = vscale (vadd (velocity b) (acceleration b))
                 (maxSpeed b / magnitude (vadd (velocity b) (acceleration b))))
   \<and> position (update b) = vadd (position b) (velocity (update b))
   \<and> acceleration (update b) = Vector2D 0 0
   \<and> radius (update b) = radius b \<and> maxSpeed (update b) = maxSpeed b
   \<and> maxForce (update b) = maxForce b
   \<and> (0 \<le> maxSpeed b \<longrightarrow> magnitude (velocity (update b)) \<le> maxSpeed b)"
  by (simp add: update_def Let_def vscale_def [of "acceleration b"] magnitude_limit_le
      limit_within limit_beyond)

theorem update_steps_witness:
  "velocity (update ((Bird_init 1 1 0)\<lparr>acceleration := Vector2D 1 4\<rparr>)) = Vector2D (6 / 5) (8 / 5)
   \<and> position (update ((Bird_init 1 1 0)\<lparr>acceleration := Vector2D 1 4\<rparr>)) = Vector2D (11 / 5) (13 / 5)
   \<and> acceleration (update ((Bird_init 1 1 0)\<lparr>acceleration := Vector2D 1 4\<rparr>)) = Vector2D 0 0
   \<and> magnitude (velocity (update ((Bird_init 1 1 0)\<lparr>acceleration := Vector2D 1 4\<rparr>))) \<le> 2
   \<and> velocity (update ((Bird_init 1 1 0)\<lparr>velocity := Vector2D 0 1\<rparr>)) = Vector2D 0 1
   \<and> position (update ((Bird_init 1 1 0)\<lparr>velocity := Vector2D 0 1\<rparr>)) = Vector2D 1 2
   \<and> acceleration (update ((Bird_init 1 1 0)\<lparr>velocity := Vector2D 0 1\<rparr>)) = Vector2D 0 0"
proof -
  let ?c = "(Bird_init 1 1 0)\<lparr>acceleration := Vector2D 1 4\<rparr>"
  let ?f = "(Bird_init 1 1 0)\<lparr>velocity := Vector2D 0 1\<rparr>"
  have c: "vadd (velocity ?c) (acceleration ?c) = Vector2D 3 4" "maxSpeed ?c = 2"
    "position ?c = Vector2D 1 1"
    by (simp_all add: Bird_init_def fromAngle_def vscale_def vadd_def)
  have f: "vadd (velocity ?f) (acceleration ?f) = Vector2D 0 1" "maxSpeed ?f = 2"
    "position ?f = Vector2D 1 1"
    by (simp_all add: Bird_init_def vadd_def)
  note Tc = update_steps [of ?c] and Tf = update_steps [of ?f]
  have "maxSpeed ?c < magnitude (vadd (velocity ?c) (acceleration ?c))"
    unfolding c by (simp add: magnitude_3_4)
  then have "velocity (update ?c)
             = vscale (vadd (velocity ?c) (acceleration ?c))
                      (maxSpeed ?c / magnitude (vadd (velocity ?c) (acceleration ?c)))"
    by (rule Tc [THEN conjunct2, THEN conjunct2, THEN conjunct1, THEN mp])
  then have vc: "velocity (update ?c) = Vector2D (6 / 5) (8 / 5)"
    unfolding c by (simp add: magnitude_3_4 vscale_def)
  have "position (update ?c) = vadd (position ?c) (velocity (update ?c))"
    by (rule Tc [THEN conjunct2, THEN conjunct2, THEN conjunct2, THEN conjunct1])
  then have pc: "position (update ?c) = Vector2D (11 / 5) (13 / 5)"
    unfolding c vc by (simp add: vadd_def)
  have ac: "acceleration (update ?c) = Vector2D 0 0"
    by (rule Tc [THEN conjunct2, THEN conjunct2, THEN conjunct2, THEN conjunct2, THEN conjunct1])
  have "0 \<le> maxSpeed ?c" unfolding c by simp
  then have "magnitude (velocity (update ?c)) \<le> maxSpeed ?c"
    by (rule Tc [THEN conjunct2, THEN conjunct2, THEN conjunct2, THEN conjunct2,
                 THEN conjunct2, THEN conjunct2, THEN conjunct2, THEN conjunct2, THEN mp])
  then have mc: "magnitude (velocity (update ?c)) \<le> 2"
    unfolding c .
  have "magnitude (vadd (velocity ?f) (acceleration ?f)) \<le> maxSpeed ?f"
    unfolding f by (simp add: magnitude_0_1)
  then have "velocity (update ?f) = vadd (velocity ?f) (acceleration ?f)"
    by (rule Tf [THEN conjunct2, THEN conjunct1, THEN mp])
  then have vf: "velocity (update ?f) = Vector2D 0 1"
    unfolding f .
  have "position (update ?f) = vadd (position ?f) (velocity (update ?f))"
    by (rule Tf [THEN conjunct2, THEN conjunct2, THEN conjunct2, THEN conjunct1])
  then have pf: "position (update ?f) = Vector2D 1 2"
    unfolding f vf by (simp add: vadd_def)
  have af: "acceleration (update ?f) = Vector2D 0 0"
    by (rule Tf [THEN conjunct2, THEN conjunct2, THEN conjunct2, THEN conjunct2, THEN conjunct1])
  from vc pc ac mc vf pf af show ?thesis by simp
qed

text \<open>
  Claim C5. With a non-negative size \<open>radius\<close> and a positive viewport, \<open>borders\<close> moves
  a coordinate that lies more than \<open>radius\<close> beyond a bound to the opposite edge
  (\<open>x > width + radius\<close> becomes \<open>- radius\<close>, \<open>x < - radius\<close> becomes \<open>width + radius\<close>,
  likewise for \<open>y\<close> and \<open>height\<close>; in particular \<open>x = width + radius + 1\<close> becomes
  \<open>- radius\<close>), leaves a coordinate inside \<open>[- radius, bound + radius]\<close> as it is, and
  changes nothing but the position.
\<close>

theorem borders_wrap:
  assumes "0 \<le> radius b" and "0 < width" and "0 < height"
  shows "(vec_x (position b) > real_of_int width + radius b
            \<longrightarrow> vec_x (position (borders b width height)) = - radius b)
       \<and> (vec_x (position b) < - radius b
            \<longrightarrow> vec_x (position (borders b width height)) = real_of_int width + radius b)
       \<and> (vec_y (position b) > real_of_int height + radius b
            \<longrightarrow> vec_y (position (borders b width height)) = - radius b)
       \<and> (vec_y (position b) < - radius b
            \<longrightarrow> vec_y (position (borders b width height)) = real_of_int height + radius b)
       \<and> (- radius b \<le> vec_x (position b) \<and> vec_x (position b) \<le> real_of_int width + radius b
            \<longrightarrow> vec_x (position (borders b width height)) = vec_x (position b))
       \<and> (- radius b \<le> vec_y (position b) \<and> vec_y (position b) \<le> real_of_int height + radius b
            \<longrightarrow> vec_y (position (borders b width height)) = vec_y (position b))
       \<and> (vec_x (position b) = real_of_int width + radius b + 1
            \<longrightarrow> vec_x (position (borders b width height)) = - radius b)
       \<and> borders b width height = b\<lparr>position := position (borders b width height)\<rparr>"
  using assms by (auto simp: borders_def set_x_def set_y_def Let_def)

theorem borders_wrap_witness:
  "vec_x (position (borders (Bird_init 645 (- 5) 0) 640 480)) = - 4
   \<and> vec_y (position (borders (Bird_init 645 (- 5) 0) 640 480)) = 484
   \<and> vec_x (position (borders (Bird_init (- 5) 485 0) 640 480)) = 644
   \<and> vec_y (position (borders (Bird_init (- 5) 485 0) 640 480)) = - 4
   \<and> vec_x (position (borders (Bird_init 10 20 0) 640 480)) = 10
   \<and> vec_y (position (borders (Bird_init 10 20 0) 640 480)) = 20"
  using borders_wrap [of "Bird_init 645 (- 5) 0" 640 480]
    borders_wrap [of "Bird_init (- 5) 485 0" 640 480]
    borders_wrap [of "Bird_init 10 20 0" 640 480]
  by (simp add: Bird_init_def)

text \<open>
  Claim C6. When no bird of the list lies at a distance \<open>d\<close> with \<open>0 < d < radius\<close> of
  the rule, \<open>separate\<close>, \<open>align\<close> and \<open>cohesion\<close> each return the zero vector; so they do
  on the single-bird flock, whose only candidate is the bird itself at distance 0.
\<close>

theorem rules_zero_without_neighbours:
  "((\<forall>other\<in>set bs. \<not> (0 < distance (position b) (position other)
                        \<and> distance (position b) (position other) < separationRadius b))
      \<longrightarrow> separate b bs = Vector2D 0 0)
   \<and> ((\<forall>other\<in>set bs. \<not> (0 < distance (position b) (position other)
                        \<and> distance (position b) (position other) < alignmentRadius b))
      \<longrightarrow> align b bs = Vector2D 0 0)
   \<and> ((\<forall>other\<in>set bs. \<not> (0 < distance (position b) (position other)
                        \<and> distance (position b) (position other) < cohesionRadius b))
      \<longrightarrow> cohesion b bs = Vector2D 0 0)
   \<and> separate b [b] = Vector2D 0 0 \<and> align b [b] = Vector2D 0 0 \<and> cohesion b [b] = Vector2D 0 0"
  by (simp add: separate_def align_def cohesion_def separate_loop_none align_loop_none
      cohesion_loop_none distance_self)

theorem rules_zero_without_neighbours_witness:
  "separate (Bird_init 0 0 0) [Bird_init 0 0 0, Bird_init 100 0 0] = Vector2D 0 0
   \<and> align (Bird_init 0 0 0) [Bird_init 0 0 0, Bird_init 100 0 0] = Vector2D 0 0
   \<and> cohesion (Bird_init 0 0 0) [Bird_init 0 0 0, Bird_init 100 0 0] = Vector2D 0 0"
  using rules_zero_without_neighbours [of "[Bird_init 0 0 0, Bird_init 100 0 0]" "Bird_init 0 0 0"]
  by (simp add: Bird_init_def distance_horizontal)

subsection \<open>FlockingSystem: removal and statistics\<close>

text \<open>
  Claim C8. For \<open>n \<ge> 0\<close> (and a flock whose size fits the \<^verbatim>\<open>int\<close> it is cast to),
  \<open>removeBoids n\<close> succeeds, leaves the window alone, empties the flock when \<open>n\<close> is at
  least its size and otherwise keeps exactly the first \<open>size - n\<close> birds of the list, which
  \<open>addBoid\<close> extends at the end.
\<close>

theorem removeBoids_tail:
  assumes "0 \<le> n" and "length (birds F) < 2 ^ 31"
  shows "\<exists>F'. removeBoids n F = Inr F'
           \<and> windowWidth F' = windowWidth F \<and> windowHeight F' = windowHeight F
           \<and> (n \<ge> int (length (birds F)) \<longrightarrow> birds F' = [])
           \<and> (n < int (length (birds F)) \<longrightarrow>
                 length (birds F') = length (birds F) - nat n
                 \<and> birds F' = take (length (birds F) - nat n) (birds F))"
  using assms by (auto simp: removeBoids_def size_as_int_small)

theorem removeBoids_tail_witness:
  "(\<exists>F'. removeBoids 1 \<lparr>birds = [Bird_init 0 0 0, Bird_init 1 0 0, Bird_init 2 0 0],
                            windowWidth = 640, windowHeight = 480\<rparr> = Inr F'
         \<and> birds F' = [Bird_init 0 0 0, Bird_init 1 0 0])
   \<and> (\<exists>F'. removeBoids 5 \<lparr>birds = [Bird_init 0 0 0, Bird_init 1 0 0, Bird_init 2 0 0],
                            windowWidth = 640, windowHeight = 480\<rparr> = Inr F'
         \<and> birds F' = [])"
  using removeBoids_tail [of 1 "\<lparr>birds = [Bird_init 0 0 0, Bird_init 1 0 0, Bird_init 2 0 0],
                                windowWidth = 640, windowHeight = 480\<rparr>"]
    removeBoids_tail [of 5 "\<lparr>birds = [Bird_init 0 0 0, Bird_init 1 0 0, Bird_init 2 0 0],
                             windowWidth = 640, windowHeight = 480\<rparr>"]
  by auto

text \<open>
  Claim C9. \<open>getCoherence\<close> is 0 on a flock of fewer than two birds and otherwise the mean
  Euclidean distance of the birds' positions from their centroid; on two birds at \<open>(0,0)\<close>
  and \<open>(10,0)\<close> it is 5.
\<close>

theorem getCoherence_mean_distance:
  "(length (birds F) < 2 \<longrightarrow> getCoherence F = 0)
   \<and> (2 \<le> length (birds F) \<longrightarrow>
        getCoherence F = mean_distance_from_centroid (map position (birds F)))
   \<and> (\<forall>b1 b2. birds F = [b1, b2] \<and> position b1 = Vector2D 0 0 \<and> position b2 = Vector2D 10 0
        \<longrightarrow> getCoherence F = 5)"
proof (intro conjI allI impI)
  assume "length (birds F) < 2"
  then show "getCoherence F = 0" by (simp add: getCoherence_def)
next
  assume "2 \<le> length (birds F)"
  then show "getCoherence F = mean_distance_from_centroid (map position (birds F))"
    by (rule getCoherence_eq)
next
  fix b1 b2
  assume h: "birds F = [b1, b2] \<and> position b1 = Vector2D 0 0 \<and> position b2 = Vector2D 10 0"
  then have "getCoherence F = mean_distance_from_centroid [Vector2D 0 0, Vector2D 10 0]"
    using getCoherence_eq [of F] by simp
  also have "\<dots> = 5"
    by (simp add: mean_distance_from_centroid_def centroid_def distance_horizontal)
  finally show "getCoherence F = 5" .
qed

theorem getCoherence_mean_distance_witness:
  "getCoherence \<lparr>birds = [Bird_init 0 0 0], windowWidth = 640, windowHeight = 480\<rparr> = 0
   \<and> getCoherence \<lparr>birds = [Bird_init 0 0 0, Bird_init 10 0 0],
                     windowWidth = 640, windowHeight = 480\<rparr> = 5"
  using getCoherence_mean_distance
          [of "\<lparr>birds = [Bird_init 0 0 0], windowWidth = 640, windowHeight = 480\<rparr>"]
    getCoherence_mean_distance
          [of "\<lparr>birds = [Bird_init 0 0 0, Bird_init 10 0 0],
                windowWidth = 640, windowHeight = 480\<rparr>"]
  by (simp add: Bird_init_def)

subsection \<open>FlockingSystem: the parallel update against the serial one\<close>

text \<open>
  Claim C1. One step of \<open>updateParallel\<close> is to give every bird the position and velocity
  that one step of \<open>updateSerial\<close> gives it, up to a small tolerance (1e-4 relative), for
  every non-empty flock with uniform radii. Proposition \<open>update_paths_agree\<close> shows that the
  two paths agree outside two cases. On the three-bird flock above, which has uniform radii,
  one of the cases occurs for the middle bird: the mean position of its two neighbours is its
  own position, \<open>cohesion\<close> (through \<open>seek\<close>) still returns the negated velocity clamped to
  \<open>maxForce\<close>, and the parallel path adds no cohesion term. After one step the two velocities
  of that bird, and its two positions, are 0.03 apart, at a speed of about 2: more than a
  hundred times the tolerance.
\<close>

theorem update_paths_diverge:
  "map separationRadius (birds symmetric_flock) = [25, 25, 25]
   \<and> map alignmentRadius (birds symmetric_flock) = [50, 50, 50]
   \<and> map cohesionRadius (birds symmetric_flock) = [50, 50, 50]
   \<and> velocity (birds (updateSerial symmetric_flock) ! 0) = Vector2D (979 / 1300) (- (2937 / 1625))
   \<and> velocity (birds (updateParallel symmetric_flock) ! 0) = Vector2D (497 / 650) (- (2982 / 1625))
   \<and> distance (velocity (birds (updateSerial symmetric_flock) ! 0))
               (velocity (birds (updateParallel symmetric_flock) ! 0)) = 3 / 100
   \<and> distance (position (birds (updateSerial symmetric_flock) ! 0))
               (position (birds (updateParallel symmetric_flock) ! 0)) = 3 / 100
   \<and> 100 * (magnitude (velocity (birds (updateSerial symmetric_flock) ! 0)) / 10000)
       < distance (velocity (birds (updateSerial symmetric_flock) ! 0))
                  (velocity (birds (updateParallel symmetric_flock) ! 0))"
proof -
  have radii: "map separationRadius (birds symmetric_flock) = [25, 25, 25]"
    "map alignmentRadius (birds symmetric_flock) = [50, 50, 50]"
    "map cohesionRadius (birds symmetric_flock) = [50, 50, 50]"
    by (simp_all add: symmetric_flock_def heading_bird_def Bird_init_def)
  have gap: "magnitude (Vector2D (- (3 / 260)) (9 / 325)) = 3 / 100"
    by (rule magnitude_eqI) simp_all
  have vel: "velocity (birds (updateSerial symmetric_flock) ! 0) = Vector2D (979 / 1300) (- (2937 / 1625))"
    "velocity (birds (updateParallel symmetric_flock) ! 0) = Vector2D (497 / 650) (- (2982 / 1625))"
    by (simp_all add: middle_serial middle_parallel)
  have pos: "position (birds (updateSerial symmetric_flock) ! 0) = Vector2D (130979 / 1300) (582063 / 1625)"
    "position (birds (updateParallel symmetric_flock) ! 0) = Vector2D (65497 / 650) (582018 / 1625)"
    by (simp_all add: middle_serial middle_parallel)
  have dv: "distance (Vector2D (979 / 1300) (- (2937 / 1625))) (Vector2D (497 / 650) (- (2982 / 1625)))
            = 3 / 100"
    using gap by (simp add: distance_def vsub_def)
  have dp: "distance (Vector2D (130979 / 1300) (582063 / 1625)) (Vector2D (65497 / 650) (582018 / 1625))
            = 3 / 100"
    using gap by (simp add: distance_def vsub_def)
  show ?thesis
    unfolding vel pos dv dp magnitude_serial_velocity
    by (simp add: radii)
qed

end
